theory Spec2Isabelle
  imports Complex_Main
begin

section \<open>Data model of \<open>database.py\<close>\<close>

text \<open>
  The development embeds \<open>DataProcessor.process_test_data\<close> (database.py, lines 139-189)
  together with the library calls it is built from.

  Numbers. The values of the tables are Python floats. They are modelled by the reals:
  rounding and overflow are outside the model. The two special floats the code itself
  produces are kept: \<open>float('inf')\<close>, the initial value of \<open>min_mse\<close> and of
  \<open>min_deviation\<close>, and NaN, the value of \<open>Series.max()\<close> on a series without any
  number in it.
\<close>

datatype pyfloat = Fin real | PosInf | NaN

text \<open>Python's \<open><\<close> and \<open><=\<close> on floats: every comparison with NaN is false.\<close>

fun py_lt :: "pyfloat \<Rightarrow> pyfloat \<Rightarrow> bool" where
  "py_lt (Fin a) (Fin b) = (a < b)"
| "py_lt (Fin a) PosInf = True"
| "py_lt _ _ = False"

fun py_le :: "pyfloat \<Rightarrow> pyfloat \<Rightarrow> bool" where
  "py_le (Fin a) (Fin b) = (a \<le> b)"
| "py_le (Fin a) PosInf = True"
| "py_le PosInf PosInf = True"
| "py_le _ _ = False"

text \<open>The exceptions that leave \<open>process_test_data\<close>.\<close>

datatype py_error = KeyError | ValueError | OperationalError

text \<open>
  \<open>training_data\<close> as read back from the table of that name: \<open>load_data\<close> names its
  columns \<open>x, y1, y2, y3, y4\<close> (line 130), and \<open>pd.read_sql\<close> gives the frame the default
  index \<open>0, 1, ..., N - 1\<close>.
\<close>

record training_df =
  train_x :: "real list"
  train_y1 :: "real list"
  train_y2 :: "real list"
  train_y3 :: "real list"
  train_y4 :: "real list"

text \<open>The training table as a data frame: its five columns have one length.\<close>

definition wf_training_df :: "training_df \<Rightarrow> bool" where
  "wf_training_df tr =
     (length (train_y1 tr) = length (train_x tr) \<and> length (train_y2 tr) = length (train_x tr) \<and>
      length (train_y3 tr) = length (train_x tr) \<and> length (train_y4 tr) = length (train_x tr))"

text \<open>
  \<open>ideal_functions_df\<close> after \<open>set_index('x')\<close> (line 155): the \<open>x\<close> column is the
  index, \<open>columns\<close> are the names of the remaining columns in file order, and \<open>series\<close>
  maps a column name to its values. In a data frame every column is as long as the
  index and the column names are those of \<open>columns\<close>; \<open>wf_ideal_df\<close> states it.
\<close>

record ideal_df =
  index :: "real list"
  columns :: "string list"
  series :: "string \<rightharpoonup> real list"

definition wf_ideal_df :: "ideal_df \<Rightarrow> bool" where
  "wf_ideal_df df =
     (list_all (\<lambda>c. case series df c of None \<Rightarrow> False
                                       | Some s \<Rightarrow> length s = length (index df)) (columns df))"

text \<open>One dictionary appended to \<open>results\<close> (line 185).\<close>

record result_row =
  res_x :: real
  res_y :: real
  delta_y :: pyfloat
  ideal_func_no :: "nat option"

text \<open>
  The three tables of the SQLite file that \<open>process_test_data\<close> reads and writes.
  \<open>test_data\<close> is \<open>None\<close> when the file has no table of that name.
\<close>

record database =
  training_data :: training_df
  ideal_functions :: ideal_df
  test_data :: "result_row list option"

section \<open>Library calls\<close>

text \<open>
  \<open>training_data[f'y{i}']\<close>: the column named \<open>y\<close> followed by the number \<open>i\<close>; a name
  that is not a column raises \<open>KeyError\<close>.
\<close>

definition training_col :: "training_df \<Rightarrow> nat \<Rightarrow> py_error + real list" where
  "training_col tr i =
     (if i = 1 then Inr (train_y1 tr)
      else if i = 2 then Inr (train_y2 tr)
      else if i = 3 then Inr (train_y3 tr)
      else if i = 4 then Inr (train_y4 tr)
      else Inl KeyError)"

text \<open>\<open>ideal_functions_df[col]\<close>; \<open>col\<close> is \<open>None\<close> when no best function was found.\<close>

definition getitem :: "ideal_df \<Rightarrow> string option \<Rightarrow> py_error + real list" where
  "getitem df col =
     (case col of None \<Rightarrow> Inl KeyError
      | Some c \<Rightarrow> (case series df c of None \<Rightarrow> Inl KeyError | Some s \<Rightarrow> Inr s))"

text \<open>
  \<open>sklearn.metrics.mean_squared_error(y_true, y_pred)\<close>: the two arguments are turned
  into arrays, so the comparison is by position and the index of a series plays no
  role. Arguments of different lengths and empty arguments raise \<open>ValueError\<close>.
\<close>

definition mean_squared_error :: "real list \<Rightarrow> real list \<Rightarrow> py_error + real" where
  "mean_squared_error y_true y_pred =
     (if length y_true \<noteq> length y_pred then Inl ValueError
      else if length y_true = 0 then Inl ValueError
      else Inr ((\<Sum>p \<leftarrow> zip y_true y_pred. (fst p - snd p)\<^sup>2) / real (length y_true)))"

text \<open>
  \<open>ideal_functions_df.loc[x_val, ideal_func]\<close>: the value of the column in the row
  whose index label equals \<open>x_val\<close>. No such row raises \<open>KeyError\<close>. With several such
  rows \<open>loc\<close> returns a series, and taking the truth value of the comparison on line 182
  raises \<open>ValueError\<close>.
\<close>

definition loc :: "ideal_df \<Rightarrow> real \<Rightarrow> string option \<Rightarrow> py_error + real" where
  "loc df x_val ideal_func =
     (case getitem df ideal_func of
        Inl e \<Rightarrow> Inl e
      | Inr s \<Rightarrow>
         (case filter (\<lambda>j. index df ! j = x_val) [0..<length (index df)] of
            [] \<Rightarrow> Inl KeyError
          | [j] \<Rightarrow> Inr (s ! j)
          | _ \<Rightarrow> Inl ValueError))"

text \<open>
  \<open>a - b\<close> on two pandas series aligns them on their index labels before subtracting:
  the result has a number exactly at the labels that occur in both. The left operand
  of line 181 is a column of \<open>training_data\<close>, whose labels are the row numbers
  \<open>0 .. N - 1\<close>; the right operand is a column of \<open>ideal_functions_df\<close>, whose labels are
  the values of \<open>x\<close>. \<open>aligned_abs_diff\<close> lists \<open>abs(a - b)\<close> at the common labels
  (at the other labels the result is NaN).
\<close>

definition aligned_abs_diff :: "real list \<Rightarrow> real list \<Rightarrow> real list \<Rightarrow> real list" where
  "aligned_abs_diff a idx b =
     concat (map (\<lambda>l. map (\<lambda>j. \<bar>a ! l - b ! j\<bar>)
                          (filter (\<lambda>j. idx ! j = real l) [0..<length idx]))
                 [0..<length a])"

text \<open>\<open>Series.max()\<close> skips NaN; without any number left the result is NaN.\<close>

fun series_max :: "real list \<Rightarrow> pyfloat" where
  "series_max [] = NaN"
| "series_max (v # vs) = Fin (fold max vs v)"

text \<open>\<open>c * v\<close> for a finite factor \<open>c\<close>, as in \<open>np.sqrt(2) * ...\<close> on line 181.\<close>

fun py_times :: "real \<Rightarrow> pyfloat \<Rightarrow> pyfloat" where
  "py_times c (Fin v) = Fin (c * v)"
| "py_times c PosInf = (if 0 < c then PosInf else NaN)"
| "py_times c NaN = NaN"

section \<open>Best fit for each training function (lines 159-170)\<close>

text \<open>The loop over \<open>ideal_functions_df.columns\<close>, with \<open>(min_mse, best_func)\<close> as state.\<close>

fun best_func_loop ::
  "training_df \<Rightarrow> ideal_df \<Rightarrow> nat \<Rightarrow> string list \<Rightarrow> pyfloat \<times> string option
     \<Rightarrow> py_error + (pyfloat \<times> string option)" where
  "best_func_loop tr df i [] st = Inr st"
| "best_func_loop tr df i (col # cols) (min_mse, best_func) =
     (case training_col tr i of
        Inl e \<Rightarrow> Inl e
      | Inr y_true \<Rightarrow>
         (case getitem df (Some col) of
            Inl e \<Rightarrow> Inl e
          | Inr y_pred \<Rightarrow>
             (case mean_squared_error y_true y_pred of
                Inl e \<Rightarrow> Inl e
              | Inr mse \<Rightarrow>
                 if py_lt (Fin mse) min_mse
                 then best_func_loop tr df i cols (Fin mse, Some col)
                 else best_func_loop tr df i cols (min_mse, best_func))))"

text \<open>The loop \<open>for i in range(1, 5)\<close>, appending \<open>best_func\<close> to \<open>best_ideal_funcs\<close>.\<close>

fun best_ideal_funcs_loop ::
  "training_df \<Rightarrow> ideal_df \<Rightarrow> nat list \<Rightarrow> py_error + string option list" where
  "best_ideal_funcs_loop tr df [] = Inr []"
| "best_ideal_funcs_loop tr df (i # is) =
     (case best_func_loop tr df i (columns df) (PosInf, None) of
        Inl e \<Rightarrow> Inl e
      | Inr st \<Rightarrow>
         (case best_ideal_funcs_loop tr df is of
            Inl e \<Rightarrow> Inl e
          | Inr rest \<Rightarrow> Inr (snd st # rest)))"

definition best_ideal_funcs :: "training_df \<Rightarrow> ideal_df \<Rightarrow> py_error + string option list" where
  "best_ideal_funcs tr df = best_ideal_funcs_loop tr df [1, 2, 3, 4]"

section \<open>Classification of the test points (lines 172-185)\<close>

text \<open>Line 180.\<close>

definition deviation :: "ideal_df \<Rightarrow> real \<Rightarrow> real \<Rightarrow> string option \<Rightarrow> py_error + real" where
  "deviation df x_val y_val ideal_func =
     (case loc df x_val ideal_func of Inl e \<Rightarrow> Inl e | Inr v \<Rightarrow> Inr \<bar>y_val - v\<bar>)"

text \<open>Line 181.\<close>

definition max_allowed_deviation ::
  "training_df \<Rightarrow> ideal_df \<Rightarrow> nat \<Rightarrow> string option \<Rightarrow> py_error + pyfloat" where
  "max_allowed_deviation tr df idx ideal_func =
     (case training_col tr (idx + 1) of
        Inl e \<Rightarrow> Inl e
      | Inr a \<Rightarrow>
         (case getitem df ideal_func of
            Inl e \<Rightarrow> Inl e
          | Inr b \<Rightarrow> Inr (py_times (sqrt 2) (series_max (aligned_abs_diff a (index df) b)))))"

definition enumerate_from0 :: "'a list \<Rightarrow> (nat \<times> 'a) list" where
  "enumerate_from0 xs = zip [0..<length xs] xs"

text \<open>
  The loop over \<open>enumerate(best_ideal_funcs)\<close> (lines 179-184), with
  \<open>(min_deviation, best_fit)\<close> as state.
\<close>

fun fit_loop ::
  "training_df \<Rightarrow> ideal_df \<Rightarrow> real \<Rightarrow> real \<Rightarrow> (nat \<times> string option) list
     \<Rightarrow> pyfloat \<times> nat option \<Rightarrow> py_error + (pyfloat \<times> nat option)" where
  "fit_loop tr df x_val y_val [] st = Inr st"
| "fit_loop tr df x_val y_val ((idx, ideal_func) # rest) (min_deviation, best_fit) =
     (case deviation df x_val y_val ideal_func of
        Inl e \<Rightarrow> Inl e
      | Inr dev \<Rightarrow>
         (case max_allowed_deviation tr df idx ideal_func of
            Inl e \<Rightarrow> Inl e
          | Inr mad \<Rightarrow>
             if py_le (Fin dev) mad \<and> py_lt (Fin dev) min_deviation
             then fit_loop tr df x_val y_val rest (Fin dev, Some (idx + 1))
             else fit_loop tr df x_val y_val rest (min_deviation, best_fit)))"

text \<open>The body of the loop over the rows of \<open>test_data\<close> (lines 175-185).\<close>

definition process_row ::
  "training_df \<Rightarrow> ideal_df \<Rightarrow> string option list \<Rightarrow> real \<times> real \<Rightarrow> py_error + result_row" where
  "process_row tr df fs row =
     (case fit_loop tr df (fst row) (snd row) (enumerate_from0 fs) (PosInf, None) of
        Inl e \<Rightarrow> Inl e
      | Inr st \<Rightarrow>
         Inr \<lparr>res_x = fst row, res_y = snd row, delta_y = fst st, ideal_func_no = snd st\<rparr>)"

fun results_loop ::
  "training_df \<Rightarrow> ideal_df \<Rightarrow> string option list \<Rightarrow> (real \<times> real) list
     \<Rightarrow> py_error + result_row list" where
  "results_loop tr df fs [] = Inr []"
| "results_loop tr df fs (row # rows) =
     (case process_row tr df fs row of
        Inl e \<Rightarrow> Inl e
      | Inr r \<Rightarrow>
         (case results_loop tr df fs rows of
            Inl e \<Rightarrow> Inl e
          | Inr rs \<Rightarrow> Inr (r # rs)))"

text \<open>
  Lines 187-188: \<open>pd.DataFrame(results).to_sql('test_data', engine, if_exists='replace')\<close>
  drops the table and creates it again from the frame. The frame of an empty list has no
  column, and creating a table without a column raises \<open>OperationalError\<close>, after the old
  table has been dropped.
\<close>

definition to_sql_replace :: "result_row list \<Rightarrow> database \<Rightarrow> py_error option \<times> database" where
  "to_sql_replace results db =
     (if results = [] then (Some OperationalError, db\<lparr>test_data := None\<rparr>)
      else (None, db\<lparr>test_data := Some results\<rparr>))"

text \<open>
  \<open>process_test_data\<close>. The argument \<open>tests\<close> is the content of the test file, one
  pair \<open>(x, y)\<close> for each row. An exception of the selection or of the classification
  leaves the database as it was; a run that returns has replaced the table \<open>test_data\<close>
  by the results.
\<close>

definition process_test_data ::
  "(real \<times> real) list \<Rightarrow> database \<Rightarrow> (py_error + result_row list) \<times> database" where
  "process_test_data tests db =
     (case best_ideal_funcs (training_data db) (ideal_functions db) of
        Inl e \<Rightarrow> (Inl e, db)
      | Inr fs \<Rightarrow>
         (case results_loop (training_data db) (ideal_functions db) fs tests of
            Inl e \<Rightarrow> (Inl e, db)
          | Inr rs \<Rightarrow>
             (case to_sql_replace rs db of
                (Some e, db') \<Rightarrow> (Inl e, db')
              | (None, db') \<Rightarrow> (Inr rs, db'))))"

section \<open>Example tables\<close>

text \<open>
  A small instance on the grid \<open>0, 1, 2, 3\<close> with two candidate columns, used to
  evaluate the definitions.
\<close>

definition ex_training :: training_df where
  "ex_training = \<lparr>train_x = [0, 1, 2, 3], train_y1 = [0, 1, 2, 4], train_y2 = [0, 2, 4, 6],
                   train_y3 = [0, 1, 2, 3], train_y4 = [0, 2, 4, 7]\<rparr>"

definition ex_ideal :: ideal_df where
  "ex_ideal = \<lparr>index = [0, 1, 2, 3], columns = [''c1'', ''c2''],
               series = [''c1'' \<mapsto> [0, 1, 2, 3], ''c2'' \<mapsto> [0, 2, 4, 6]]\<rparr>"

definition ex_db :: database where
  "ex_db = \<lparr>training_data = ex_training, ideal_functions = ex_ideal, test_data = Some []\<rparr>"

text \<open>The candidate table of the example on another grid of the same length.\<close>

definition ex_ideal_other_grid :: ideal_df where
  "ex_ideal_other_grid = ex_ideal\<lparr>index := [10, 20, 30, 40]\<rparr>"

text \<open>
  An instance on the grid \<open>-1, 0, 1\<close>, as in a file whose \<open>x\<close> does not start at \<open>0\<close>:
  the row numbers \<open>0, 1, 2\<close> of the training table and the index labels \<open>-1, 0, 1\<close> of
  the candidate table have the labels \<open>0\<close> and \<open>1\<close> in common.
\<close>

definition shifted_training :: training_df where
  "shifted_training = \<lparr>train_x = [- 1, 0, 1], train_y1 = [0, 0, 5], train_y2 = [0, 0, 5],
                        train_y3 = [0, 0, 5], train_y4 = [0, 0, 5]\<rparr>"

definition shifted_ideal :: ideal_df where
  "shifted_ideal = \<lparr>index = [- 1, 0, 1], columns = [''c1''],
                    series = [''c1'' \<mapsto> [0, 0, 0]]\<rparr>"

definition shifted_db :: database where
  "shifted_db = \<lparr>training_data = shifted_training, ideal_functions = shifted_ideal,
                  test_data = Some []\<rparr>"

text \<open>
  An instance on the grid \<open>-3, -2, -1\<close>, which has no value in common with the row
  numbers \<open>0, 1, 2\<close>. Every training column equals the only candidate column.
\<close>

definition neg_training :: training_df where
  "neg_training = \<lparr>train_x = [- 3, - 2, - 1], train_y1 = [1, 2, 3], train_y2 = [1, 2, 3],
                    train_y3 = [1, 2, 3], train_y4 = [1, 2, 3]\<rparr>"

definition neg_ideal :: ideal_df where
  "neg_ideal = \<lparr>index = [- 3, - 2, - 1], columns = [''c1''],
                series = [''c1'' \<mapsto> [1, 2, 3]]\<rparr>"

definition neg_db :: database where
  "neg_db = \<lparr>training_data = neg_training, ideal_functions = neg_ideal, test_data = Some []\<rparr>"

text \<open>
  An instance on the grid \<open>-1, 0, 1\<close> with one candidate column, and the same training
  table with other values in \<open>y1\<close> at \<open>x = -1\<close> and \<open>x = 0\<close> only.
\<close>

definition dip_training :: training_df where
  "dip_training = \<lparr>train_x = [- 1, 0, 1], train_y1 = [6, 4, 0], train_y2 = [10, 0, 0],
                    train_y3 = [10, 0, 0], train_y4 = [10, 0, 0]\<rparr>"

definition dip_training_raised :: training_df where
  "dip_training_raised = dip_training\<lparr>train_y1 := [8, 2, 0]\<rparr>"

definition dip_ideal :: ideal_df where
  "dip_ideal = \<lparr>index = [- 1, 0, 1], columns = [''c1''],
                series = [''c1'' \<mapsto> [0, 10, 0]]\<rparr>"

definition dip_db :: database where
  "dip_db = \<lparr>training_data = dip_training, ideal_functions = dip_ideal, test_data = Some []\<rparr>"

section \<open>Notions of the specification\<close>

text \<open>
  The bound of the specification, in its words: the maximum over the grid positions \<open>i\<close>
  of \<open>|signal[i] - chosen_candidate[i]|\<close>. It is compared with what line 181 computes.
\<close>

definition spec_max_abs_deviation :: "real list \<Rightarrow> real list \<Rightarrow> pyfloat" where
  "spec_max_abs_deviation signal candidate =
     series_max (map (\<lambda>p. \<bar>fst p - snd p\<bar>) (zip signal candidate))"

section \<open>Comparison of Python floats\<close>

lemma py_le_trans: "py_le a b \<Longrightarrow> py_le b c \<Longrightarrow> py_le a c"
  by (cases a; cases b; cases c) auto

lemma py_lt_le: "py_lt a b \<Longrightarrow> py_le a b"
  by (cases a; cases b) auto

lemma not_py_lt_le: "\<not> py_lt (Fin v) m \<Longrightarrow> m \<noteq> NaN \<Longrightarrow> py_le m (Fin v)"
  by (cases m) auto

lemma py_le_refl: "m \<noteq> NaN \<Longrightarrow> py_le m m"
  by (cases m) auto

section \<open>Arithmetic and list facts\<close>

lemma sqrt2_ge_1: "1 \<le> sqrt 2"
  by simp

lemma sqrt2_half: "1 \<le> sqrt 2 * 2"
proof -
  have "1 \<le> sqrt 2" by simp
  then show ?thesis by linarith
qed

lemma sqrt2_less_2: "sqrt 2 < 2"
proof -
  have "sqrt 2 < sqrt 4" by (simp only: real_sqrt_less_iff)
  also have "sqrt 4 = 2" by simp
  finally show ?thesis .
qed

lemma sqrt2_less_3_2: "sqrt 2 * 2 < 3"
proof -
  have "(2::real) < (3 / 2)\<^sup>2" by (simp add: power2_eq_square)
  then have "sqrt 2 < sqrt ((3 / 2)\<^sup>2)" by (simp only: real_sqrt_less_iff)
  also have "sqrt ((3 / 2)\<^sup>2) = 3 / 2" by simp
  finally show ?thesis by linarith
qed

lemma upt4: "[0..<4] = [0, 1, 2, 3]"
  by (simp add: upt_rec)

lemma upt3: "[0..<3] = [0, 1, 2]"
  by (simp add: upt_rec)

lemma all_less_4: "(\<forall>i<4. P i) \<longleftrightarrow> P 0 \<and> P (Suc 0) \<and> P 2 \<and> P (3::nat)"
proof
  assume "\<forall>i<4. P i"
  then show "P 0 \<and> P (Suc 0) \<and> P 2 \<and> P 3" by simp
next
  assume a: "P 0 \<and> P (Suc 0) \<and> P 2 \<and> P 3"
  show "\<forall>i<4. P i"
  proof (intro allI impI)
    fix i :: nat assume "i < 4"
    then consider "i = 0" | "i = Suc 0" | "i = 2" | "i = 3" by linarith
    then show "P i" using a by cases simp_all
  qed
qed

lemma filter_index_single:
  assumes "distinct xs" and "j < length xs"
  shows "filter (\<lambda>k. xs ! k = xs ! j) [0..<length xs] = [j]"
proof -
  have "filter (\<lambda>k. xs ! k = xs ! j) [0..<length xs] = filter (\<lambda>k. k = j) [0..<length xs]"
    using assms by (intro filter_cong) (auto simp: nth_eq_iff_index_eq)
  also have "\<dots> = [j]"
    using assms(2) by (induction xs rule: rev_induct) (auto simp: less_Suc_eq)
  finally show ?thesis .
qed

lemma filter_index_distinct:
  assumes "distinct xs"
  shows "filter (\<lambda>k. xs ! k = v) [0..<length xs] = [] \<or>
         (\<exists>j. filter (\<lambda>k. xs ! k = v) [0..<length xs] = [j])"
proof (cases "v \<in> set xs")
  case True
  then obtain j where "j < length xs" "xs ! j = v" by (auto simp: in_set_conv_nth)
  with filter_index_single[OF assms, of j] show ?thesis by auto
next
  case False
  then have "filter (\<lambda>k. xs ! k = v) [0..<length xs] = []"
    by (auto simp: filter_empty_conv)
  then show ?thesis by simp
qed

section \<open>The selection loops\<close>

lemma best_func_loop_char:
  assumes "best_func_loop tr df i cols (m0, b0) = Inr (m, b)" and "m0 \<noteq> NaN"
  shows "m \<noteq> NaN \<and> py_le m m0 \<and>
         (\<forall>c\<in>set cols. \<exists>yt yp v. training_col tr i = Inr yt \<and> series df c = Some yp \<and>
              mean_squared_error yt yp = Inr v \<and> py_le m (Fin v)) \<and>
         ((m, b) = (m0, b0) \<or>
          (\<exists>c\<in>set cols. \<exists>yt yp v. b = Some c \<and> training_col tr i = Inr yt \<and>
              series df c = Some yp \<and> mean_squared_error yt yp = Inr v \<and> m = Fin v))"
  using assms
proof (induction cols arbitrary: m0 b0)
  case Nil
  then show ?case by (simp add: py_le_refl)
next
  case (Cons col cols)
  from Cons.prems(1) obtain yt yp v where
    yt: "training_col tr i = Inr yt" and yp: "series df col = Some yp"
    and v: "mean_squared_error yt yp = Inr v"
    by (auto simp: getitem_def split: sum.splits option.splits)
  show ?case
  proof (cases "py_lt (Fin v) m0")
    case True
    with Cons.prems yt yp v have run: "best_func_loop tr df i cols (Fin v, Some col) = Inr (m, b)"
      by (simp add: getitem_def)
    from Cons.IH[OF run] have ih: "m \<noteq> NaN" "py_le m (Fin v)"
      "\<forall>c\<in>set cols. \<exists>yt yp v. training_col tr i = Inr yt \<and> series df c = Some yp \<and>
              mean_squared_error yt yp = Inr v \<and> py_le m (Fin v)"
      "(m, b) = (Fin v, Some col) \<or>
          (\<exists>c\<in>set cols. \<exists>yt yp v. b = Some c \<and> training_col tr i = Inr yt \<and>
              series df c = Some yp \<and> mean_squared_error yt yp = Inr v \<and> m = Fin v)"
      by simp_all
    have "py_le m m0" using ih(2) True py_lt_le py_le_trans by blast
    moreover have "\<exists>yt yp v. training_col tr i = Inr yt \<and> series df col = Some yp \<and>
              mean_squared_error yt yp = Inr v \<and> py_le m (Fin v)"
      using yt yp v ih(2) by blast
    moreover have "\<exists>c\<in>set (col # cols). \<exists>yt yp v. b = Some c \<and> training_col tr i = Inr yt \<and>
              series df c = Some yp \<and> mean_squared_error yt yp = Inr v \<and> m = Fin v"
      using ih(4) yt yp v by auto
    ultimately show ?thesis using ih(1,3) by simp
  next
    case False
    with Cons.prems yt yp v have run: "best_func_loop tr df i cols (m0, b0) = Inr (m, b)"
      by (simp add: getitem_def)
    from Cons.IH[OF run Cons.prems(2)] have ih: "m \<noteq> NaN" "py_le m m0"
      "\<forall>c\<in>set cols. \<exists>yt yp v. training_col tr i = Inr yt \<and> series df c = Some yp \<and>
              mean_squared_error yt yp = Inr v \<and> py_le m (Fin v)"
      "(m, b) = (m0, b0) \<or>
          (\<exists>c\<in>set cols. \<exists>yt yp v. b = Some c \<and> training_col tr i = Inr yt \<and>
              series df c = Some yp \<and> mean_squared_error yt yp = Inr v \<and> m = Fin v)"
      by simp_all
    have "py_le m0 (Fin v)" using False Cons.prems(2) by (rule not_py_lt_le)
    then have "py_le m (Fin v)" using ih(2) py_le_trans by blast
    then have "\<exists>yt yp v. training_col tr i = Inr yt \<and> series df col = Some yp \<and>
              mean_squared_error yt yp = Inr v \<and> py_le m (Fin v)"
      using yt yp v by blast
    moreover have "(m, b) = (m0, b0) \<or> (\<exists>c\<in>set (col # cols). \<exists>yt yp v. b = Some c \<and> training_col tr i = Inr yt \<and>
              series df c = Some yp \<and> mean_squared_error yt yp = Inr v \<and> m = Fin v)"
      using ih(4) by auto
    ultimately show ?thesis using ih(1,2,3) by simp
  qed
qed

lemma best_ideal_funcs_loop_char:
  assumes "best_ideal_funcs_loop tr df is = Inr fs"
  shows "length fs = length is \<and>
         (\<forall>k<length is. \<exists>m. best_func_loop tr df (is ! k) (columns df) (PosInf, None) = Inr (m, fs ! k))"
  using assms
proof (induction "is" arbitrary: fs)
  case Nil
  then show ?case by simp
next
  case (Cons i "is")
  from Cons.prems obtain st rest where
    st: "best_func_loop tr df i (columns df) (PosInf, None) = Inr st"
    and rest: "best_ideal_funcs_loop tr df is = Inr rest"
    and fs: "fs = snd st # rest"
    by (auto split: sum.splits)
  from Cons.IH[OF rest] have ih: "length rest = length is"
    "\<forall>k<length is. \<exists>m. best_func_loop tr df (is ! k) (columns df) (PosInf, None) = Inr (m, rest ! k)"
    by simp_all
  have "\<exists>m. best_func_loop tr df ((i # is) ! k) (columns df) (PosInf, None) = Inr (m, fs ! k)"
    if "k < length (i # is)" for k
  proof (cases k)
    case 0
    then show ?thesis using st fs by (cases st) simp
  next
    case (Suc k')
    then show ?thesis using ih(2) that fs by simp
  qed
  then show ?case using ih(1) fs by simp
qed

lemma best_ideal_funcs_char:
  assumes "best_ideal_funcs tr df = Inr fs" and "i < 4"
  shows "length fs = 4 \<and> (\<exists>m. best_func_loop tr df (i + 1) (columns df) (PosInf, None) = Inr (m, fs ! i))"
proof -
  from assms(1) have run: "best_ideal_funcs_loop tr df [1, 2, 3, 4] = Inr fs"
    by (simp add: best_ideal_funcs_def)
  from best_ideal_funcs_loop_char[OF run] have len: "length fs = 4"
    and all: "\<forall>k<4. \<exists>m. best_func_loop tr df ([1, 2, 3, 4] ! k) (columns df) (PosInf, None) = Inr (m, fs ! k)"
    by simp_all
  have "[1, 2, 3, 4::nat] ! i = i + 1"
    using assms(2) by (auto simp: less_Suc_eq numeral_eq_Suc)
  with all assms(2) len show ?thesis by metis
qed

lemma mean_squared_error_formula:
  assumes "mean_squared_error a b = Inr v"
  shows "length a = length b \<and> 0 < length a \<and> v = (\<Sum>k<length a. (a ! k - b ! k)\<^sup>2) / real (length a)"
proof -
  from assms have len: "length a = length b" "0 < length a"
    and v: "v = (\<Sum>p \<leftarrow> zip a b. (fst p - snd p)\<^sup>2) / real (length a)"
    by (auto simp: mean_squared_error_def split: if_splits)
  have "(\<Sum>p \<leftarrow> zip a b. (fst p - snd p)\<^sup>2) = (\<Sum>k<length (zip a b). (fst (zip a b ! k) - snd (zip a b ! k))\<^sup>2)"
    by (simp add: sum_list_sum_nth atLeast0LessThan)
  also have "\<dots> = (\<Sum>k<length a. (a ! k - b ! k)\<^sup>2)"
    using len by simp
  finally show ?thesis using len v by simp
qed

lemma best_func_defined:
  assumes sel: "best_ideal_funcs tr df = Inr fs" and cols: "columns df \<noteq> []" and i: "i < 4"
  shows "\<exists>c s. fs ! i = Some c \<and> c \<in> set (columns df) \<and> series df c = Some s"
proof -
  from best_ideal_funcs_char[OF sel i] obtain m where
    run: "best_func_loop tr df (i + 1) (columns df) (PosInf, None) = Inr (m, fs ! i)"
    by blast
  from best_func_loop_char[OF run] have
    all: "\<forall>c\<in>set (columns df). \<exists>yt yp v. training_col tr (i + 1) = Inr yt \<and> series df c = Some yp \<and>
              mean_squared_error yt yp = Inr v \<and> py_le m (Fin v)"
    and pick: "(m, fs ! i) = (PosInf, None) \<or>
          (\<exists>c\<in>set (columns df). \<exists>yt yp v. fs ! i = Some c \<and> training_col tr (i + 1) = Inr yt \<and>
              series df c = Some yp \<and> mean_squared_error yt yp = Inr v \<and> m = Fin v)"
    by simp_all
  from cols obtain c0 where "c0 \<in> set (columns df)" by (cases "columns df") auto
  with all obtain v where "py_le m (Fin v)" by blast
  then have "m \<noteq> PosInf" by auto
  with pick show ?thesis by auto
qed

lemma best_func_loop_grid_free:
  "best_func_loop (tr\<lparr>train_x := xs\<rparr>) (df\<lparr>index := idx\<rparr>) i cols st
     = best_func_loop tr df i cols st"
proof (induction cols arbitrary: st)
  case Nil
  then show ?case by simp
next
  case (Cons col cols)
  obtain m b where st: "st = (m, b)" by (cases st)
  have t: "training_col (tr\<lparr>train_x := xs\<rparr>) i = training_col tr i"
    by (simp add: training_col_def)
  have g: "getitem (df\<lparr>index := idx\<rparr>) (Some col) = getitem df (Some col)"
    by (simp add: getitem_def)
  show ?case unfolding st best_func_loop.simps t g
    by (simp add: Cons.IH split: sum.splits)
qed

lemma best_ideal_funcs_loop_grid_free:
  "best_ideal_funcs_loop (tr\<lparr>train_x := xs\<rparr>) (df\<lparr>index := idx\<rparr>) is
     = best_ideal_funcs_loop tr df is"
  by (induction "is") (simp_all add: best_func_loop_grid_free split: sum.splits)

lemma first_mse_fails:
  assumes wt: "wf_training_df tr" and wd: "wf_ideal_df df" and cols: "columns df \<noteq> []"
    and len: "length (train_x tr) \<noteq> length (index df)"
  shows "best_ideal_funcs tr df = Inl ValueError"
proof -
  from cols obtain c cs where c: "columns df = c # cs" by (cases "columns df") auto
  with wd obtain s where s: "series df c = Some s" "length s = length (index df)"
    by (auto simp: wf_ideal_df_def split: option.splits)
  from wt have "length (train_y1 tr) = length (train_x tr)" by (simp add: wf_training_df_def)
  with len s(2) have "mean_squared_error (train_y1 tr) s = Inl ValueError"
    by (simp add: mean_squared_error_def)
  then have "best_func_loop tr df 1 (columns df) (PosInf, None) = Inl ValueError"
    using c s(1) by (simp add: training_col_def getitem_def)
  then show ?thesis by (simp add: best_ideal_funcs_def)
qed

section \<open>The classification loops\<close>

lemma fit_loop_char:
  assumes hyp: "\<forall>p\<in>set ps. deviation df x_val y_val (snd p) = Inr (D (fst p)) \<and>
                             max_allowed_deviation tr df (fst p) (snd p) = Inr (T (fst p))"
    and srt: "sorted_wrt (<) (map fst ps)"
  shows "\<exists>m b. fit_loop tr df x_val y_val ps (m0, b0) = Inr (m, b) \<and>
           (((m, b) = (m0, b0) \<and>
              (\<forall>i\<in>fst ` set ps. \<not> (py_le (Fin (D i)) (T i) \<and> py_lt (Fin (D i)) m0))) \<or>
            (\<exists>j\<in>fst ` set ps. b = Some (j + 1) \<and> m = Fin (D j) \<and>
                py_le (Fin (D j)) (T j) \<and> py_lt (Fin (D j)) m0 \<and>
                (\<forall>i\<in>fst ` set ps. py_le (Fin (D i)) (T i) \<longrightarrow> D j \<le> D i) \<and>
                (\<forall>i\<in>fst ` set ps. i < j \<and> py_le (Fin (D i)) (T i) \<longrightarrow> D j < D i)))"
  using assms
proof (induction ps arbitrary: m0 b0)
  case Nil
  then show ?case by simp
next
  case (Cons p ps)
  obtain idx f where p: "p = (idx, f)" by (cases p)
  from Cons.prems(1) p have dev: "deviation df x_val y_val f = Inr (D idx)"
    and mad: "max_allowed_deviation tr df idx f = Inr (T idx)"
    and hyp': "\<forall>p\<in>set ps. deviation df x_val y_val (snd p) = Inr (D (fst p)) \<and>
                             max_allowed_deviation tr df (fst p) (snd p) = Inr (T (fst p))"
    by simp_all
  from Cons.prems(2) p have srt': "sorted_wrt (<) (map fst ps)"
    and first: "\<forall>i\<in>fst ` set ps. idx < i"
    by auto
  show ?case
  proof (cases "py_le (Fin (D idx)) (T idx) \<and> py_lt (Fin (D idx)) m0")
    case True
    have step: "fit_loop tr df x_val y_val (p # ps) (m0, b0) =
                fit_loop tr df x_val y_val ps (Fin (D idx), Some (idx + 1))"
      using True dev mad p by simp
    from Cons.IH[OF hyp' srt', of "Fin (D idx)" "Some (idx + 1)"] obtain m b where
      run: "fit_loop tr df x_val y_val ps (Fin (D idx), Some (idx + 1)) = Inr (m, b)"
      and ih: "((m, b) = (Fin (D idx), Some (idx + 1)) \<and>
              (\<forall>i\<in>fst ` set ps. \<not> (py_le (Fin (D i)) (T i) \<and> py_lt (Fin (D i)) (Fin (D idx))))) \<or>
            (\<exists>j\<in>fst ` set ps. b = Some (j + 1) \<and> m = Fin (D j) \<and>
                py_le (Fin (D j)) (T j) \<and> py_lt (Fin (D j)) (Fin (D idx)) \<and>
                (\<forall>i\<in>fst ` set ps. py_le (Fin (D i)) (T i) \<longrightarrow> D j \<le> D i) \<and>
                (\<forall>i\<in>fst ` set ps. i < j \<and> py_le (Fin (D i)) (T i) \<longrightarrow> D j < D i))"
      by blast
    from ih have "\<exists>j\<in>fst ` set (p # ps). b = Some (j + 1) \<and> m = Fin (D j) \<and>
                py_le (Fin (D j)) (T j) \<and> py_lt (Fin (D j)) m0 \<and>
                (\<forall>i\<in>fst ` set (p # ps). py_le (Fin (D i)) (T i) \<longrightarrow> D j \<le> D i) \<and>
                (\<forall>i\<in>fst ` set (p # ps). i < j \<and> py_le (Fin (D i)) (T i) \<longrightarrow> D j < D i)"
    proof
      assume a: "(m, b) = (Fin (D idx), Some (idx + 1)) \<and>
              (\<forall>i\<in>fst ` set ps. \<not> (py_le (Fin (D i)) (T i) \<and> py_lt (Fin (D i)) (Fin (D idx))))"
      have "\<forall>i\<in>fst ` set (p # ps). py_le (Fin (D i)) (T i) \<longrightarrow> D idx \<le> D i"
        using a p by (auto simp: not_less)
      moreover have "\<forall>i\<in>fst ` set (p # ps). i < idx \<and> py_le (Fin (D i)) (T i) \<longrightarrow> D idx < D i"
        using first p by (auto dest: less_asym)
      ultimately have "b = Some (idx + 1) \<and> m = Fin (D idx) \<and>
                py_le (Fin (D idx)) (T idx) \<and> py_lt (Fin (D idx)) m0 \<and>
                (\<forall>i\<in>fst ` set (p # ps). py_le (Fin (D i)) (T i) \<longrightarrow> D idx \<le> D i) \<and>
                (\<forall>i\<in>fst ` set (p # ps). i < idx \<and> py_le (Fin (D i)) (T i) \<longrightarrow> D idx < D i)"
        using a True by simp
      then show ?thesis using p by (intro bexI[of _ idx]) simp_all
    next
      assume "\<exists>j\<in>fst ` set ps. b = Some (j + 1) \<and> m = Fin (D j) \<and>
                py_le (Fin (D j)) (T j) \<and> py_lt (Fin (D j)) (Fin (D idx)) \<and>
                (\<forall>i\<in>fst ` set ps. py_le (Fin (D i)) (T i) \<longrightarrow> D j \<le> D i) \<and>
                (\<forall>i\<in>fst ` set ps. i < j \<and> py_le (Fin (D i)) (T i) \<longrightarrow> D j < D i)"
      then obtain j where j: "j \<in> fst ` set ps" "b = Some (j + 1)" "m = Fin (D j)"
        "py_le (Fin (D j)) (T j)" "D j < D idx"
        "\<forall>i\<in>fst ` set ps. py_le (Fin (D i)) (T i) \<longrightarrow> D j \<le> D i"
        "\<forall>i\<in>fst ` set ps. i < j \<and> py_le (Fin (D i)) (T i) \<longrightarrow> D j < D i"
        by auto
      have lt0: "py_lt (Fin (D j)) m0"
        using True j(5) by (cases m0) auto
      have "\<forall>i\<in>fst ` set (p # ps). py_le (Fin (D i)) (T i) \<longrightarrow> D j \<le> D i"
        using j(5,6) p by auto
      moreover have "\<forall>i\<in>fst ` set (p # ps). i < j \<and> py_le (Fin (D i)) (T i) \<longrightarrow> D j < D i"
        using j(5,7) p by auto
      ultimately show ?thesis using j(1-4) lt0 by (intro bexI[of _ j]) simp_all
    qed
    with step run show ?thesis by auto
  next
    case False
    have step: "fit_loop tr df x_val y_val (p # ps) (m0, b0) =
                fit_loop tr df x_val y_val ps (m0, b0)"
      using False dev mad p by auto
    from Cons.IH[OF hyp' srt', of m0 b0] obtain m b where
      run: "fit_loop tr df x_val y_val ps (m0, b0) = Inr (m, b)"
      and ih: "((m, b) = (m0, b0) \<and>
              (\<forall>i\<in>fst ` set ps. \<not> (py_le (Fin (D i)) (T i) \<and> py_lt (Fin (D i)) m0))) \<or>
            (\<exists>j\<in>fst ` set ps. b = Some (j + 1) \<and> m = Fin (D j) \<and>
                py_le (Fin (D j)) (T j) \<and> py_lt (Fin (D j)) m0 \<and>
                (\<forall>i\<in>fst ` set ps. py_le (Fin (D i)) (T i) \<longrightarrow> D j \<le> D i) \<and>
                (\<forall>i\<in>fst ` set ps. i < j \<and> py_le (Fin (D i)) (T i) \<longrightarrow> D j < D i))"
      by blast
    from ih have "((m, b) = (m0, b0) \<and>
              (\<forall>i\<in>fst ` set (p # ps). \<not> (py_le (Fin (D i)) (T i) \<and> py_lt (Fin (D i)) m0))) \<or>
            (\<exists>j\<in>fst ` set (p # ps). b = Some (j + 1) \<and> m = Fin (D j) \<and>
                py_le (Fin (D j)) (T j) \<and> py_lt (Fin (D j)) m0 \<and>
                (\<forall>i\<in>fst ` set (p # ps). py_le (Fin (D i)) (T i) \<longrightarrow> D j \<le> D i) \<and>
                (\<forall>i\<in>fst ` set (p # ps). i < j \<and> py_le (Fin (D i)) (T i) \<longrightarrow> D j < D i))"
    proof
      assume "(m, b) = (m0, b0) \<and>
              (\<forall>i\<in>fst ` set ps. \<not> (py_le (Fin (D i)) (T i) \<and> py_lt (Fin (D i)) m0))"
      then show ?thesis using False p by auto
    next
      assume "\<exists>j\<in>fst ` set ps. b = Some (j + 1) \<and> m = Fin (D j) \<and>
                py_le (Fin (D j)) (T j) \<and> py_lt (Fin (D j)) m0 \<and>
                (\<forall>i\<in>fst ` set ps. py_le (Fin (D i)) (T i) \<longrightarrow> D j \<le> D i) \<and>
                (\<forall>i\<in>fst ` set ps. i < j \<and> py_le (Fin (D i)) (T i) \<longrightarrow> D j < D i)"
      then obtain j where j: "j \<in> fst ` set ps" "b = Some (j + 1)" "m = Fin (D j)"
        "py_le (Fin (D j)) (T j)" "py_lt (Fin (D j)) m0"
        "\<forall>i\<in>fst ` set ps. py_le (Fin (D i)) (T i) \<longrightarrow> D j \<le> D i"
        "\<forall>i\<in>fst ` set ps. i < j \<and> py_le (Fin (D i)) (T i) \<longrightarrow> D j < D i"
        by auto
      have lt: "py_le (Fin (D idx)) (T idx) \<longrightarrow> D j < D idx"
        using False j(5) by (cases m0) auto
      have "\<forall>i\<in>fst ` set (p # ps). py_le (Fin (D i)) (T i) \<longrightarrow> D j \<le> D i"
        using lt j(6) p by auto
      moreover have "\<forall>i\<in>fst ` set (p # ps). i < j \<and> py_le (Fin (D i)) (T i) \<longrightarrow> D j < D i"
        using lt j(7) p by auto
      ultimately have "\<exists>j\<in>fst ` set (p # ps). b = Some (j + 1) \<and> m = Fin (D j) \<and>
                py_le (Fin (D j)) (T j) \<and> py_lt (Fin (D j)) m0 \<and>
                (\<forall>i\<in>fst ` set (p # ps). py_le (Fin (D i)) (T i) \<longrightarrow> D j \<le> D i) \<and>
                (\<forall>i\<in>fst ` set (p # ps). i < j \<and> py_le (Fin (D i)) (T i) \<longrightarrow> D j < D i)"
        using j(1-5) by (intro bexI[of _ j]) simp_all
      then show ?thesis by blast
    qed
    with step run show ?thesis by auto
  qed
qed

lemma set_enumerate_from0:
  "set (enumerate_from0 fs) = {(i, fs ! i) | i. i < length fs}"
proof -
  have "set (enumerate_from0 fs) = {([0..<length fs] ! i, fs ! i) | i. i < length fs}"
    by (auto simp: enumerate_from0_def set_zip)
  also have "\<dots> = {(i, fs ! i) | i. i < length fs}"
    by (metis (no_types, lifting) add_0 nth_upt)
  finally show ?thesis .
qed

lemma fst_set_enumerate_from0: "fst ` set (enumerate_from0 fs) = {..<length fs}"
  by (force simp: set_enumerate_from0)

lemma sorted_enumerate_from0: "sorted_wrt (<) (map fst (enumerate_from0 fs))"
  by (simp add: enumerate_from0_def)

lemma process_row_char:
  assumes hyp: "\<forall>i<length fs. deviation df x_val y_val (fs ! i) = Inr (D i) \<and>
                              max_allowed_deviation tr df i (fs ! i) = Inr (T i)"
  shows "\<exists>r. process_row tr df fs (x_val, y_val) = Inr r \<and> res_x r = x_val \<and> res_y r = y_val \<and>
           ((ideal_func_no r = None \<and> delta_y r = PosInf \<and>
               (\<forall>i<length fs. \<not> py_le (Fin (D i)) (T i))) \<or>
            (\<exists>j<length fs. ideal_func_no r = Some (j + 1) \<and> delta_y r = Fin (D j) \<and>
                py_le (Fin (D j)) (T j) \<and>
                (\<forall>i<length fs. py_le (Fin (D i)) (T i) \<longrightarrow> D j \<le> D i) \<and>
                (\<forall>i<j. py_le (Fin (D i)) (T i) \<longrightarrow> D j < D i)))"
proof -
  have h: "\<forall>p\<in>set (enumerate_from0 fs). deviation df x_val y_val (snd p) = Inr (D (fst p)) \<and>
                             max_allowed_deviation tr df (fst p) (snd p) = Inr (T (fst p))"
    using hyp by (auto simp: set_enumerate_from0)
  from fit_loop_char[OF h sorted_enumerate_from0, of PosInf None] obtain m b where
    run: "fit_loop tr df x_val y_val (enumerate_from0 fs) (PosInf, None) = Inr (m, b)"
    and ch: "((m, b) = (PosInf, None) \<and>
              (\<forall>i\<in>{..<length fs}. \<not> (py_le (Fin (D i)) (T i) \<and> py_lt (Fin (D i)) PosInf))) \<or>
            (\<exists>j\<in>{..<length fs}. b = Some (j + 1) \<and> m = Fin (D j) \<and>
                py_le (Fin (D j)) (T j) \<and> py_lt (Fin (D j)) PosInf \<and>
                (\<forall>i\<in>{..<length fs}. py_le (Fin (D i)) (T i) \<longrightarrow> D j \<le> D i) \<and>
                (\<forall>i\<in>{..<length fs}. i < j \<and> py_le (Fin (D i)) (T i) \<longrightarrow> D j < D i))"
    unfolding fst_set_enumerate_from0 by blast
  let ?r = "\<lparr>res_x = x_val, res_y = y_val, delta_y = m, ideal_func_no = b\<rparr>"
  have r: "process_row tr df fs (x_val, y_val) = Inr ?r"
    using run by (simp add: process_row_def)
  from ch have "(b = None \<and> m = PosInf \<and> (\<forall>i<length fs. \<not> py_le (Fin (D i)) (T i))) \<or>
            (\<exists>j<length fs. b = Some (j + 1) \<and> m = Fin (D j) \<and>
                py_le (Fin (D j)) (T j) \<and>
                (\<forall>i<length fs. py_le (Fin (D i)) (T i) \<longrightarrow> D j \<le> D i) \<and>
                (\<forall>i<j. py_le (Fin (D i)) (T i) \<longrightarrow> D j < D i))"
  proof
    assume "(m, b) = (PosInf, None) \<and>
              (\<forall>i\<in>{..<length fs}. \<not> (py_le (Fin (D i)) (T i) \<and> py_lt (Fin (D i)) PosInf))"
    then show ?thesis by simp
  next
    assume "\<exists>j\<in>{..<length fs}. b = Some (j + 1) \<and> m = Fin (D j) \<and>
                py_le (Fin (D j)) (T j) \<and> py_lt (Fin (D j)) PosInf \<and>
                (\<forall>i\<in>{..<length fs}. py_le (Fin (D i)) (T i) \<longrightarrow> D j \<le> D i) \<and>
                (\<forall>i\<in>{..<length fs}. i < j \<and> py_le (Fin (D i)) (T i) \<longrightarrow> D j < D i)"
    then obtain j where j: "j < length fs" "b = Some (j + 1)" "m = Fin (D j)"
      "py_le (Fin (D j)) (T j)"
      "\<forall>i<length fs. py_le (Fin (D i)) (T i) \<longrightarrow> D j \<le> D i"
      "\<forall>i<length fs. i < j \<and> py_le (Fin (D i)) (T i) \<longrightarrow> D j < D i"
      by auto
    from j(1,6) have "\<forall>i<j. py_le (Fin (D i)) (T i) \<longrightarrow> D j < D i"
      by (meson less_trans)
    with j(1-5) show ?thesis by blast
  qed
  with r show ?thesis by simp
qed

lemma process_row_fields:
  assumes "process_row tr df fs row = Inr r"
  shows "res_x r = fst row \<and> res_y r = snd row"
  using assms by (auto simp: process_row_def split: sum.splits)

lemma fit_loop_defined:
  assumes "fit_loop tr df x_val y_val ps st = Inr st'" and "p \<in> set ps"
  shows "\<exists>d t. deviation df x_val y_val (snd p) = Inr d \<and>
               max_allowed_deviation tr df (fst p) (snd p) = Inr t"
  using assms
proof (induction ps arbitrary: st)
  case Nil
  then show ?case by simp
next
  case (Cons q ps)
  obtain idx f where q: "q = (idx, f)" by (cases q)
  obtain m b where st: "st = (m, b)" by (cases st)
  from Cons.prems(1) q st obtain d t where
    d: "deviation df x_val y_val f = Inr d" and t: "max_allowed_deviation tr df idx f = Inr t"
    by (auto split: sum.splits)
  from Cons.prems(1) q st d t obtain st2 where
    run: "fit_loop tr df x_val y_val ps st2 = Inr st'"
    by (auto split: if_splits)
  show ?case
  proof (cases "p = q")
    case True
    then show ?thesis using q d t by simp
  next
    case False
    with Cons.prems(2) have "p \<in> set ps" by simp
    from Cons.IH[OF run this] show ?thesis .
  qed
qed

lemma process_row_defined:
  assumes "process_row tr df fs row = Inr r"
  shows "\<exists>D T. \<forall>i<length fs. deviation df (fst row) (snd row) (fs ! i) = Inr (D i) \<and>
                              max_allowed_deviation tr df i (fs ! i) = Inr (T i)"
proof -
  from assms obtain st where
    run: "fit_loop tr df (fst row) (snd row) (enumerate_from0 fs) (PosInf, None) = Inr st"
    by (auto simp: process_row_def split: sum.splits)
  have "\<exists>d t. deviation df (fst row) (snd row) (fs ! i) = Inr d \<and>
              max_allowed_deviation tr df i (fs ! i) = Inr t" if "i < length fs" for i
  proof -
    from that have "(i, fs ! i) \<in> set (enumerate_from0 fs)"
      by (auto simp: set_enumerate_from0)
    from fit_loop_defined[OF run this] show ?thesis by simp
  qed
  then show ?thesis by metis
qed

lemma results_loop_nth:
  assumes "results_loop tr df fs tests = Inr rs"
  shows "length rs = length tests \<and> (\<forall>k<length tests. process_row tr df fs (tests ! k) = Inr (rs ! k))"
  using assms
proof (induction tests arbitrary: rs)
  case Nil
  then show ?case by simp
next
  case (Cons row rows)
  from Cons.prems obtain r rest where
    r: "process_row tr df fs row = Inr r" and rest: "results_loop tr df fs rows = Inr rest"
    and rs: "rs = r # rest"
    by (auto split: sum.splits)
  from Cons.IH[OF rest] have ih: "length rest = length rows"
    "\<forall>k<length rows. process_row tr df fs (rows ! k) = Inr (rest ! k)"
    by simp_all
  have "process_row tr df fs ((row # rows) ! k) = Inr (rs ! k)" if "k < length (row # rows)" for k
    using that r rs ih(2) by (cases k) simp_all
  then show ?case using ih(1) rs by simp
qed

lemma results_loop_total:
  assumes "\<forall>row\<in>set tests. \<exists>r. process_row tr df fs row = Inr r"
  shows "\<exists>rs. results_loop tr df fs tests = Inr rs"
  using assms
proof (induction tests)
  case Nil
  then show ?case by simp
next
  case (Cons row rows)
  then obtain r rs where "process_row tr df fs row = Inr r" "results_loop tr df fs rows = Inr rs"
    by auto
  then show ?case by simp
qed

lemma process_test_data_Inr:
  assumes "fst (process_test_data tests db) = Inr rs"
  shows "\<exists>fs. best_ideal_funcs (training_data db) (ideal_functions db) = Inr fs \<and>
              results_loop (training_data db) (ideal_functions db) fs tests = Inr rs \<and>
              rs \<noteq> [] \<and>
              process_test_data tests db = (Inr rs, db\<lparr>test_data := Some rs\<rparr>)"
  using assms
  by (auto simp: process_test_data_def to_sql_replace_def split: sum.splits if_splits)

lemma returned_run_records:
  assumes "fst (process_test_data tests db) = Inr rs"
  shows "length rs = length tests \<and> map (\<lambda>r. (res_x r, res_y r)) rs = tests"
proof -
  from process_test_data_Inr[OF assms] obtain fs where
    run: "results_loop (training_data db) (ideal_functions db) fs tests = Inr rs"
    by blast
  from results_loop_nth[OF run] have len: "length rs = length tests"
    and nth: "\<forall>k<length tests.
                process_row (training_data db) (ideal_functions db) fs (tests ! k) = Inr (rs ! k)"
    by simp_all
  have "map (\<lambda>r. (res_x r, res_y r)) rs = tests"
  proof (rule nth_equalityI)
    show "length (map (\<lambda>r. (res_x r, res_y r)) rs) = length tests" using len by simp
  next
    fix k assume "k < length (map (\<lambda>r. (res_x r, res_y r)) rs)"
    then have k: "k < length tests" using len by simp
    with nth have "process_row (training_data db) (ideal_functions db) fs (tests ! k) = Inr (rs ! k)"
      by simp
    from process_row_fields[OF this] k len
    show "map (\<lambda>r. (res_x r, res_y r)) rs ! k = tests ! k" by simp
  qed
  with len show ?thesis by simp
qed

lemma loc_on_grid:
  assumes "distinct (index df)" and "x_val \<in> set (index df)" and "series df c = Some s"
  shows "\<exists>j<length (index df). index df ! j = x_val \<and> loc df x_val (Some c) = Inr (s ! j)"
proof -
  from assms(2) obtain j where j: "j < length (index df)" "index df ! j = x_val"
    by (auto simp: in_set_conv_nth)
  have "filter (\<lambda>k. index df ! k = x_val) [0..<length (index df)] = [j]"
    using filter_index_single[OF assms(1) j(1)] j(2) by simp
  then have "loc df x_val (Some c) = Inr (s ! j)"
    using assms(3) by (simp add: loc_def getitem_def)
  with j show ?thesis by blast
qed

lemma max_allowed_deviation_defined:
  assumes "i < 4" and "series df c = Some s"
  shows "\<exists>t. max_allowed_deviation tr df i (Some c) = Inr t"
  using assms by (auto simp: max_allowed_deviation_def training_col_def getitem_def)

lemma training_col_defined:
  assumes "i < 4"
  shows "\<exists>signal. training_col tr (i + 1) = Inr signal"
proof -
  from assms consider "i = 0" | "i = 1" | "i = 2" | "i = 3" by linarith
  then show ?thesis by cases (simp_all add: training_col_def)
qed

lemma deviation_on_grid:
  assumes "distinct (index df)" and "x_val \<in> set (index df)" and "series df c = Some s"
  shows "\<exists>j<length (index df). index df ! j = x_val \<and>
           deviation df x_val y_val (Some c) = Inr \<bar>y_val - s ! j\<bar>"
  using loc_on_grid[OF assms] by (auto simp: deviation_def)

lemma deviation_on_grid_only:
  assumes "deviation df x_val y_val f = Inr d"
  shows "x_val \<in> set (index df)"
proof -
  from assms have "filter (\<lambda>j. index df ! j = x_val) [0..<length (index df)] \<noteq> []"
    by (auto simp: deviation_def loc_def split: sum.splits list.splits)
  then obtain j where "j \<in> set (filter (\<lambda>j. index df ! j = x_val) [0..<length (index df)])"
    by (cases "filter (\<lambda>j. index df ! j = x_val) [0..<length (index df)]") auto
  then show ?thesis by auto
qed

lemma fits_defined_on_grid:
  assumes sel: "best_ideal_funcs tr df = Inr fs" and cols: "columns df \<noteq> []"
    and dist: "distinct (index df)" and grid: "x_val \<in> set (index df)"
  shows "\<exists>D T. \<forall>i<4. deviation df x_val y_val (fs ! i) = Inr (D i) \<and>
                      max_allowed_deviation tr df i (fs ! i) = Inr (T i)"
proof -
  have "\<exists>d t. deviation df x_val y_val (fs ! i) = Inr d \<and>
              max_allowed_deviation tr df i (fs ! i) = Inr t" if "i < 4" for i
  proof -
    from best_func_defined[OF sel cols that] obtain c s where
      c: "fs ! i = Some c" "series df c = Some s" by blast
    from deviation_on_grid[OF dist grid c(2), of y_val] obtain d where
      "deviation df x_val y_val (Some c) = Inr d" by blast
    moreover from max_allowed_deviation_defined[OF that c(2), of tr] obtain t where
      "max_allowed_deviation tr df i (Some c) = Inr t" by blast
    ultimately show ?thesis using c(1) by simp
  qed
  then show ?thesis by metis
qed

lemma process_row_on_grid:
  assumes sel: "best_ideal_funcs tr df = Inr fs" and cols: "columns df \<noteq> []"
    and dist: "distinct (index df)" and grid: "x_val \<in> set (index df)"
  shows "\<exists>r. process_row tr df fs (x_val, y_val) = Inr r"
proof -
  from best_ideal_funcs_char[OF sel, of 0] have len: "length fs = 4" by simp
  from fits_defined_on_grid[OF sel cols dist grid, of y_val] obtain D T where
    "\<forall>i<4. deviation df x_val y_val (fs ! i) = Inr (D i) \<and>
            max_allowed_deviation tr df i (fs ! i) = Inr (T i)"
    by blast
  then have hyp: "\<forall>i<length fs. deviation df x_val y_val (fs ! i) = Inr (D i) \<and>
                max_allowed_deviation tr df i (fs ! i) = Inr (T i)"
    using len by simp
  from process_row_char[OF hyp] show ?thesis by blast
qed

lemma run_returns_on_grid:
  assumes sel: "best_ideal_funcs (training_data db) (ideal_functions db) = Inr fs"
    and cols: "columns (ideal_functions db) \<noteq> []"
    and dist: "distinct (index (ideal_functions db))"
    and grid: "\<forall>p\<in>set tests. fst p \<in> set (index (ideal_functions db))"
    and ne: "tests \<noteq> []"
  shows "\<exists>rs. process_test_data tests db = (Inr rs, db\<lparr>test_data := Some rs\<rparr>)"
proof -
  have "\<forall>row\<in>set tests. \<exists>r. process_row (training_data db) (ideal_functions db) fs row = Inr r"
  proof
    fix row assume "row \<in> set tests"
    with grid have "fst row \<in> set (index (ideal_functions db))" by blast
    from process_row_on_grid[OF sel cols dist this, of "snd row"]
    show "\<exists>r. process_row (training_data db) (ideal_functions db) fs row = Inr r" by simp
  qed
  from results_loop_total[OF this] obtain rs where
    loop: "results_loop (training_data db) (ideal_functions db) fs tests = Inr rs" by blast
  from results_loop_nth[OF loop] ne have "rs \<noteq> []" by auto
  with sel loop have "process_test_data tests db = (Inr rs, db\<lparr>test_data := Some rs\<rparr>)"
    by (simp add: process_test_data_def to_sql_replace_def)
  then show ?thesis by blast
qed

section \<open>The exceptions of the classification\<close>

lemma getitem_error: "getitem df f = Inl e \<Longrightarrow> e = KeyError"
  by (auto simp: getitem_def split: option.splits)

lemma training_col_error: "training_col tr i = Inl e \<Longrightarrow> e = KeyError"
  by (auto simp: training_col_def split: if_splits)

lemma max_allowed_deviation_error: "max_allowed_deviation tr df i f = Inl e \<Longrightarrow> e = KeyError"
  by (auto simp: max_allowed_deviation_def split: sum.splits
      dest: getitem_error training_col_error)

lemma deviation_error:
  assumes "distinct (index df)" and "deviation df x_val y_val f = Inl e"
  shows "e = KeyError"
proof -
  from assms(2) have l: "loc df x_val f = Inl e"
    by (auto simp: deviation_def split: sum.splits)
  show ?thesis
  proof (cases "getitem df f")
    case (Inl e')
    with l have "e = e'" by (simp add: loc_def)
    with Inl show ?thesis by (auto dest: getitem_error)
  next
    case (Inr s)
    from filter_index_distinct[OF assms(1), of x_val] l Inr show ?thesis
      by (auto simp: loc_def)
  qed
qed

lemma fit_loop_error:
  assumes "distinct (index df)" and "fit_loop tr df x_val y_val ps st = Inl e"
  shows "e = KeyError"
  using assms(2)
proof (induction ps arbitrary: st)
  case Nil
  then show ?case by simp
next
  case (Cons q ps)
  obtain idx f where q: "q = (idx, f)" by (cases q)
  obtain m b where st: "st = (m, b)" by (cases st)
  show ?case
  proof (cases "deviation df x_val y_val f")
    case (Inl e')
    with Cons.prems q st have "e = e'" by simp
    with Inl deviation_error[OF assms(1)] show ?thesis by simp
  next
    case d: (Inr d)
    show ?thesis
    proof (cases "max_allowed_deviation tr df idx f")
      case (Inl e')
      with Cons.prems q st d have "e = e'" by simp
      with Inl max_allowed_deviation_error show ?thesis by simp
    next
      case (Inr t)
      with Cons.prems q st d obtain st2 where "fit_loop tr df x_val y_val ps st2 = Inl e"
        by (auto split: if_splits)
      from Cons.IH[OF this] show ?thesis .
    qed
  qed
qed

lemma results_loop_error:
  assumes "distinct (index df)" and "results_loop tr df fs tests = Inl e"
  shows "e = KeyError"
  using assms(2)
proof (induction tests)
  case Nil
  then show ?case by simp
next
  case (Cons row rows)
  show ?case
  proof (cases "process_row tr df fs row")
    case (Inl e')
    with Cons.prems have "e = e'" by simp
    moreover from Inl have "fit_loop tr df (fst row) (snd row) (enumerate_from0 fs) (PosInf, None) = Inl e'"
      by (auto simp: process_row_def split: sum.splits)
    ultimately show ?thesis using fit_loop_error[OF assms(1)] by simp
  next
    case (Inr r)
    with Cons.prems have "results_loop tr df fs rows = Inl e"
      by (auto split: sum.splits)
    from Cons.IH[OF this] show ?thesis .
  qed
qed

lemma results_loop_on_grid:
  assumes run: "results_loop tr df fs tests = Inr rs" and fs: "fs \<noteq> []" and p: "p \<in> set tests"
  shows "fst p \<in> set (index df)"
proof -
  from p obtain k where k: "k < length tests" "tests ! k = p" by (auto simp: in_set_conv_nth)
  with results_loop_nth[OF run] have "process_row tr df fs p = Inr (rs ! k)" by auto
  from process_row_defined[OF this] fs obtain d where
    "deviation df (fst p) (snd p) (fs ! 0) = Inr d"
    by (cases fs) auto
  from deviation_on_grid_only[OF this] show ?thesis .
qed

section \<open>Evaluation of the example tables\<close>

lemma ex_db_fields:
  "training_data ex_db = ex_training" "ideal_functions ex_db = ex_ideal"
  by (simp_all add: ex_db_def)

lemma ex_selection:
  "best_ideal_funcs ex_training ex_ideal = Inr [Some ''c1'', Some ''c2'', Some ''c1'', Some ''c2'']"
  by (simp add: best_ideal_funcs_def ex_training_def ex_ideal_def training_col_def getitem_def
      mean_squared_error_def)

lemma ex_row_far:
  "process_row ex_training ex_ideal [Some ''c1'', Some ''c2'', Some ''c1'', Some ''c2''] (1, 10)
     = Inr \<lparr>res_x = 1, res_y = 10, delta_y = PosInf, ideal_func_no = None\<rparr>"
proof -
  have "\<not> 9 \<le> sqrt 2" "\<not> 8 \<le> sqrt 2" using sqrt2_less_2 by linarith+
  then show ?thesis
    by (simp add: process_row_def enumerate_from0_def upt4 deviation_def loc_def
      max_allowed_deviation_def ex_training_def ex_ideal_def training_col_def getitem_def
      aligned_abs_diff_def)
qed

lemma ex_row_tie:
  "process_row ex_training ex_ideal [Some ''c1'', Some ''c2'', Some ''c1'', Some ''c2''] (1, 3 / 2)
     = Inr \<lparr>res_x = 1, res_y = 3 / 2, delta_y = Fin (1 / 2), ideal_func_no = Some 1\<rparr>"
  using sqrt2_half
  by (simp add: process_row_def enumerate_from0_def upt4 deviation_def loc_def
      max_allowed_deviation_def ex_training_def ex_ideal_def training_col_def getitem_def
      aligned_abs_diff_def)

lemma ex_row_off_grid:
  "process_row ex_training ex_ideal [Some ''c1'', Some ''c2'', Some ''c1'', Some ''c2''] (3 / 2, 1)
     = Inl KeyError"
  by (simp add: process_row_def enumerate_from0_def upt4 deviation_def loc_def
      ex_ideal_def getitem_def)

lemma ex_row_off_grid_late:
  "process_row ex_training ex_ideal [Some ''c1'', Some ''c2'', Some ''c1'', Some ''c2''] (5, 0)
     = Inl KeyError"
  by (simp add: process_row_def enumerate_from0_def upt4 deviation_def loc_def
      ex_ideal_def getitem_def)

lemma ex_row_high:
  "process_row ex_training ex_ideal [Some ''c1'', Some ''c2'', Some ''c1'', Some ''c2''] (1, 3)
     = Inr \<lparr>res_x = 1, res_y = 3, delta_y = Fin 1, ideal_func_no = Some 4\<rparr>"
proof -
  have "\<not> 2 \<le> sqrt 2" "1 \<le> sqrt 2" using sqrt2_less_2 sqrt2_ge_1 by linarith+
  then show ?thesis
    by (simp add: process_row_def enumerate_from0_def upt4 deviation_def loc_def
      max_allowed_deviation_def ex_training_def ex_ideal_def training_col_def getitem_def
      aligned_abs_diff_def)
qed

lemma ex_run:
  "process_test_data [(1, 10), (1, 3 / 2)] ex_db =
     (Inr [\<lparr>res_x = 1, res_y = 10, delta_y = PosInf, ideal_func_no = None\<rparr>,
           \<lparr>res_x = 1, res_y = 3 / 2, delta_y = Fin (1 / 2), ideal_func_no = Some 1\<rparr>],
      ex_db\<lparr>test_data := Some [\<lparr>res_x = 1, res_y = 10, delta_y = PosInf, ideal_func_no = None\<rparr>,
           \<lparr>res_x = 1, res_y = 3 / 2, delta_y = Fin (1 / 2), ideal_func_no = Some 1\<rparr>]\<rparr>)"
  by (simp add: process_test_data_def to_sql_replace_def ex_db_fields ex_selection ex_row_far ex_row_tie)

lemma shifted_selection:
  "best_ideal_funcs shifted_training shifted_ideal
     = Inr [Some ''c1'', Some ''c1'', Some ''c1'', Some ''c1'']"
  by (simp add: best_ideal_funcs_def shifted_training_def shifted_ideal_def
      training_col_def getitem_def mean_squared_error_def)

lemma shifted_row:
  "process_row shifted_training shifted_ideal [Some ''c1'', Some ''c1'', Some ''c1'', Some ''c1'']
     (1, 1) = Inr \<lparr>res_x = 1, res_y = 1, delta_y = PosInf, ideal_func_no = None\<rparr>"
  by (simp add: process_row_def enumerate_from0_def upt4 upt3 deviation_def loc_def
      max_allowed_deviation_def shifted_training_def shifted_ideal_def training_col_def
      getitem_def aligned_abs_diff_def)

lemma neg_selection:
  "best_ideal_funcs neg_training neg_ideal
     = Inr [Some ''c1'', Some ''c1'', Some ''c1'', Some ''c1'']"
  by (simp add: best_ideal_funcs_def neg_training_def neg_ideal_def
      training_col_def getitem_def mean_squared_error_def)

lemma neg_row:
  "process_row neg_training neg_ideal [Some ''c1'', Some ''c1'', Some ''c1'', Some ''c1'']
     (- 2, 2) = Inr \<lparr>res_x = - 2, res_y = 2, delta_y = PosInf, ideal_func_no = None\<rparr>"
  by (simp add: process_row_def enumerate_from0_def upt4 upt3 deviation_def loc_def
      max_allowed_deviation_def neg_training_def neg_ideal_def training_col_def
      getitem_def aligned_abs_diff_def)

lemma dip_selection:
  "best_ideal_funcs dip_training dip_ideal
     = Inr [Some ''c1'', Some ''c1'', Some ''c1'', Some ''c1'']"
  "best_ideal_funcs dip_training_raised dip_ideal
     = Inr [Some ''c1'', Some ''c1'', Some ''c1'', Some ''c1'']"
  by (simp_all add: best_ideal_funcs_def dip_training_raised_def dip_training_def dip_ideal_def
      training_col_def getitem_def mean_squared_error_def)

lemma dip_row:
  "process_row dip_training dip_ideal [Some ''c1'', Some ''c1'', Some ''c1'', Some ''c1'']
     (0, 7) = Inr \<lparr>res_x = 0, res_y = 7, delta_y = Fin 3, ideal_func_no = Some 1\<rparr>"
proof -
  have "3 \<le> sqrt 2 * 4" using sqrt2_ge_1 by linarith
  then show ?thesis
    by (simp add: process_row_def enumerate_from0_def upt4 upt3 deviation_def loc_def
      max_allowed_deviation_def dip_training_def dip_ideal_def training_col_def
      getitem_def aligned_abs_diff_def)
qed

lemma dip_row_raised:
  "process_row dip_training_raised dip_ideal [Some ''c1'', Some ''c1'', Some ''c1'', Some ''c1'']
     (0, 7) = Inr \<lparr>res_x = 0, res_y = 7, delta_y = PosInf, ideal_func_no = None\<rparr>"
proof -
  have "\<not> 3 \<le> sqrt 2 * 2" using sqrt2_less_3_2 by linarith
  then show ?thesis
    by (simp add: process_row_def enumerate_from0_def upt4 upt3 deviation_def loc_def
      max_allowed_deviation_def dip_training_raised_def dip_training_def dip_ideal_def
      training_col_def getitem_def aligned_abs_diff_def)
qed

section \<open>Classification on a grid of negative values\<close>

text \<open>
  C1, evaluated on the grid \<open>-3, -2, -1\<close>. Every training column equals the candidate
  column \<open>[1, 2, 3]\<close>, so the largest deviation over the grid positions is \<open>0\<close> and the
  tolerance of every fit is \<open>sqrt 2 * 0 = 0\<close>. The test point \<open>(-2, 2)\<close> is on the grid and has
  the deviation \<open>|2 - 2| = 0\<close> from the candidate: every fit is eligible and the point is to
  be assigned to the first. Line 181 finds no common label between the row numbers
  \<open>0, 1, 2\<close> and the grid, computes the tolerance NaN, and line 182 compares \<open>0 <= NaN\<close>,
  which is false: the code leaves the point unassigned.
\<close>

theorem nearest_fit_on_negative_grid:
  "best_ideal_funcs neg_training neg_ideal
     = Inr [Some ''c1'', Some ''c1'', Some ''c1'', Some ''c1''] \<and>
   - 2 \<in> set (index neg_ideal) \<and>
   deviation neg_ideal (- 2) 2 (Some ''c1'') = Inr 0 \<and>
   py_times (sqrt 2) (spec_max_abs_deviation (train_y1 neg_training) [1, 2, 3]) = Fin 0 \<and>
   py_le (Fin 0) (Fin 0) \<and>
   max_allowed_deviation neg_training neg_ideal 0 (Some ''c1'') = Inr NaN \<and>
   \<not> py_le (Fin 0) NaN \<and>
   fst (process_test_data [(- 2, 2)] neg_db)
     = Inr [\<lparr>res_x = - 2, res_y = 2, delta_y = PosInf, ideal_func_no = None\<rparr>]"
proof -
  have grid: "- 2 \<in> set (index neg_ideal)" by (simp add: neg_ideal_def)
  have dev: "deviation neg_ideal (- 2) 2 (Some ''c1'') = Inr 0"
    by (simp add: deviation_def loc_def neg_ideal_def getitem_def upt3)
  have spec: "py_times (sqrt 2) (spec_max_abs_deviation (train_y1 neg_training) [1, 2, 3]) = Fin 0"
    by (simp add: spec_max_abs_deviation_def neg_training_def)
  have tol: "max_allowed_deviation neg_training neg_ideal 0 (Some ''c1'') = Inr NaN"
    by (simp add: max_allowed_deviation_def neg_training_def neg_ideal_def
        training_col_def getitem_def aligned_abs_diff_def upt3)
  have run: "fst (process_test_data [(- 2, 2)] neg_db)
     = Inr [\<lparr>res_x = - 2, res_y = 2, delta_y = PosInf, ideal_func_no = None\<rparr>]"
    by (simp add: process_test_data_def to_sql_replace_def neg_db_def neg_selection neg_row)
  from neg_selection grid dev spec tol run show ?thesis by simp
qed

section \<open>Selection optimality\<close>

text \<open>
  C2 (selection optimality). When the selection returns, the candidate recorded for the
  training column \<open>y(i+1)\<close> has a mean squared error against that column, computed as
  \<open>(1/N) * sum (signal[k] - candidate[k])^2\<close>, that is at most the mean squared error of
  every candidate column against the same training column.
\<close>

theorem selection_optimality:
  assumes "best_ideal_funcs tr df = Inr fs" and "i < 4" and "fs ! i = Some b" and "c \<in> set (columns df)"
  shows "\<exists>sig cand_b cand_c mse_b mse_c.
           training_col tr (i + 1) = Inr sig \<and>
           b \<in> set (columns df) \<and> series df b = Some cand_b \<and> series df c = Some cand_c \<and>
           mean_squared_error sig cand_b = Inr mse_b \<and>
           mean_squared_error sig cand_c = Inr mse_c \<and>
           mse_b = (\<Sum>k<length sig. (sig ! k - cand_b ! k)\<^sup>2) / real (length sig) \<and>
           mse_c = (\<Sum>k<length sig. (sig ! k - cand_c ! k)\<^sup>2) / real (length sig) \<and>
           mse_b \<le> mse_c"
proof -
  from best_ideal_funcs_char[OF assms(1,2)] obtain m where
    run: "best_func_loop tr df (i + 1) (columns df) (PosInf, None) = Inr (m, fs ! i)"
    by blast
  from best_func_loop_char[OF run] have
    all: "\<forall>c\<in>set (columns df). \<exists>yt yp v. training_col tr (i + 1) = Inr yt \<and> series df c = Some yp \<and>
              mean_squared_error yt yp = Inr v \<and> py_le m (Fin v)"
    and pick: "(m, fs ! i) = (PosInf, None) \<or>
          (\<exists>c\<in>set (columns df). \<exists>yt yp v. fs ! i = Some c \<and> training_col tr (i + 1) = Inr yt \<and>
              series df c = Some yp \<and> mean_squared_error yt yp = Inr v \<and> m = Fin v)"
    by simp_all
  from pick assms(3) obtain sig cand_b mse_b where
    b: "b \<in> set (columns df)" "training_col tr (i + 1) = Inr sig" "series df b = Some cand_b"
       "mean_squared_error sig cand_b = Inr mse_b" "m = Fin mse_b"
    by auto
  from all assms(4) b(2) obtain cand_c mse_c where
    c: "series df c = Some cand_c" "mean_squared_error sig cand_c = Inr mse_c" "py_le m (Fin mse_c)"
    by fastforce
  from b(5) c(3) have le: "mse_b \<le> mse_c" by simp
  from mean_squared_error_formula[OF b(4)] mean_squared_error_formula[OF c(2)]
  show ?thesis using b c le by blast
qed

theorem selection_optimality_witness:
  "best_ideal_funcs ex_training ex_ideal = Inr [Some ''c1'', Some ''c2'', Some ''c1'', Some ''c2''] \<and>
   mean_squared_error (train_y1 ex_training) [0, 1, 2, 3] = Inr (1 / 4) \<and>
   mean_squared_error (train_y1 ex_training) [0, 2, 4, 6] = Inr (9 / 4)"
proof -
  have sel: "best_ideal_funcs ex_training ex_ideal = Inr [Some ''c1'', Some ''c2'', Some ''c1'', Some ''c2'']"
    by (simp add: best_ideal_funcs_def ex_training_def ex_ideal_def training_col_def getitem_def
      mean_squared_error_def)
  have c: "''c2'' \<in> set (columns ex_ideal)" by (simp add: ex_ideal_def)
  have b: "[Some ''c1'', Some ''c2'', Some ''c1'', Some ''c2''] ! 0 = Some ''c1''" by simp
  from selection_optimality[OF sel _ b c]
  have "\<exists>sig cand_b cand_c mse_b mse_c.
           training_col ex_training (0 + 1) = Inr sig \<and>
           ''c1'' \<in> set (columns ex_ideal) \<and> series ex_ideal ''c1'' = Some cand_b \<and> series ex_ideal ''c2'' = Some cand_c \<and>
           mean_squared_error sig cand_b = Inr mse_b \<and>
           mean_squared_error sig cand_c = Inr mse_c \<and>
           mse_b = (\<Sum>k<length sig. (sig ! k - cand_b ! k)\<^sup>2) / real (length sig) \<and>
           mse_c = (\<Sum>k<length sig. (sig ! k - cand_c ! k)\<^sup>2) / real (length sig) \<and>
           mse_b \<le> mse_c" by simp
  then show ?thesis using sel
    by (simp add: ex_training_def ex_ideal_def training_col_def mean_squared_error_def)
qed

section \<open>The tolerance on a grid that does not start at zero\<close>

text \<open>
  C3, evaluated on the grid \<open>-1, 0, 1\<close>. Every training column is \<open>[0, 0, 5]\<close> and the
  only candidate column is \<open>[0, 0, 0]\<close>, so the largest deviation over the grid positions
  is \<open>5\<close> and the tolerance of the specification is \<open>sqrt 2 * 5\<close>. Line 181 subtracts the
  two series after aligning row number \<open>0\<close> with \<open>x = 0\<close> and row number \<open>1\<close> with \<open>x = 1\<close>,
  finds the differences \<open>0\<close> and \<open>0\<close>, and computes the tolerance \<open>0\<close>. The test point
  \<open>(1, 1)\<close> has deviation \<open>1\<close>: within the tolerance of the specification, and left
  unassigned by the code.
\<close>

theorem tolerance_on_shifted_grid:
  "best_ideal_funcs shifted_training shifted_ideal
     = Inr [Some ''c1'', Some ''c1'', Some ''c1'', Some ''c1''] \<and>
   max_allowed_deviation shifted_training shifted_ideal 0 (Some ''c1'') = Inr (Fin 0) \<and>
   py_times (sqrt 2) (spec_max_abs_deviation (train_y1 shifted_training) [0, 0, 0])
     = Fin (sqrt 2 * 5) \<and>
   deviation shifted_ideal 1 1 (Some ''c1'') = Inr 1 \<and>
   py_le (Fin 1) (Fin (sqrt 2 * 5)) \<and>
   fst (process_test_data [(1, 1)] shifted_db)
     = Inr [\<lparr>res_x = 1, res_y = 1, delta_y = PosInf, ideal_func_no = None\<rparr>]"
proof -
  have tol: "max_allowed_deviation shifted_training shifted_ideal 0 (Some ''c1'') = Inr (Fin 0)"
    by (simp add: max_allowed_deviation_def shifted_training_def shifted_ideal_def
        training_col_def getitem_def aligned_abs_diff_def upt3)
  have spec: "py_times (sqrt 2) (spec_max_abs_deviation (train_y1 shifted_training) [0, 0, 0])
     = Fin (sqrt 2 * 5)"
    by (simp add: spec_max_abs_deviation_def shifted_training_def)
  have dev: "deviation shifted_ideal 1 1 (Some ''c1'') = Inr 1"
    by (simp add: deviation_def loc_def shifted_ideal_def getitem_def upt3)
  have "1 \<le> sqrt 2 * 5" using sqrt2_ge_1 by linarith
  then have le: "py_le (Fin 1) (Fin (sqrt 2 * 5))" by simp
  have run: "fst (process_test_data [(1, 1)] shifted_db)
     = Inr [\<lparr>res_x = 1, res_y = 1, delta_y = PosInf, ideal_func_no = None\<rparr>]"
    by (simp add: process_test_data_def to_sql_replace_def shifted_db_def shifted_selection shifted_row)
  from shifted_selection tol spec dev le run show ?thesis by blast
qed

section \<open>Unmatched test points\<close>

text \<open>
  C4, as the code has it. For a test point for which every fit yields a deviation and a
  tolerance and no fit is eligible, the record appended to \<open>results\<close> has
  \<open>ideal_func_no = None\<close> and \<open>delta_y = float('inf')\<close>, the initial value of
  \<open>min_deviation\<close>: the deviation field is set, to the float infinity, and is not null.
\<close>

theorem unmatched_point_keeps_infinite_deviation:
  assumes hyp: "\<forall>i<length fs. deviation df x_val y_val (fs ! i) = Inr (D i) \<and>
                              max_allowed_deviation tr df i (fs ! i) = Inr (T i)"
    and none: "\<forall>i<length fs. \<not> py_le (Fin (D i)) (T i)"
  shows "process_row tr df fs (x_val, y_val) =
           Inr \<lparr>res_x = x_val, res_y = y_val, delta_y = PosInf, ideal_func_no = None\<rparr>"
proof -
  from process_row_char[OF hyp] obtain r where
    r: "process_row tr df fs (x_val, y_val) = Inr r" "res_x r = x_val" "res_y r = y_val"
    and ch: "(ideal_func_no r = None \<and> delta_y r = PosInf \<and>
               (\<forall>i<length fs. \<not> py_le (Fin (D i)) (T i))) \<or>
            (\<exists>j<length fs. ideal_func_no r = Some (j + 1) \<and> delta_y r = Fin (D j) \<and>
                py_le (Fin (D j)) (T j) \<and>
                (\<forall>i<length fs. py_le (Fin (D i)) (T i) \<longrightarrow> D j \<le> D i) \<and>
                (\<forall>i<j. py_le (Fin (D i)) (T i) \<longrightarrow> D j < D i))"
    by blast
  from ch none have "ideal_func_no r = None" "delta_y r = PosInf" by auto
  with r(2,3) have "r = \<lparr>res_x = x_val, res_y = y_val, delta_y = PosInf, ideal_func_no = None\<rparr>"
    by (cases r) simp
  with r(1) show ?thesis by simp
qed

theorem unmatched_point_keeps_infinite_deviation_witness:
  "deviation ex_ideal 1 10 (Some ''c1'') = Inr 9 \<and>
   deviation ex_ideal 1 10 (Some ''c2'') = Inr 8 \<and>
   max_allowed_deviation ex_training ex_ideal 0 (Some ''c1'') = Inr (Fin (sqrt 2)) \<and>
   max_allowed_deviation ex_training ex_ideal 1 (Some ''c2'') = Inr (Fin 0) \<and>
   max_allowed_deviation ex_training ex_ideal 2 (Some ''c1'') = Inr (Fin 0) \<and>
   max_allowed_deviation ex_training ex_ideal 3 (Some ''c2'') = Inr (Fin (sqrt 2)) \<and>
   \<not> py_le (Fin 9) (Fin (sqrt 2)) \<and> \<not> py_le (Fin 8) (Fin (sqrt 2)) \<and>
   process_row ex_training ex_ideal [Some ''c1'', Some ''c2'', Some ''c1'', Some ''c2''] (1, 10) =
     Inr \<lparr>res_x = 1, res_y = 10, delta_y = PosInf, ideal_func_no = None\<rparr>"
proof -
  let ?fs = "[Some ''c1'', Some ''c2'', Some ''c1'', Some ''c2'']"
  let ?D = "\<lambda>i::nat. if i = 0 \<or> i = 2 then 9 else (8::real)"
  let ?T = "\<lambda>i::nat. if i = 0 \<or> i = 3 then Fin (sqrt 2) else Fin 0"
  have dev: "deviation ex_ideal 1 10 (Some ''c1'') = Inr 9"
    "deviation ex_ideal 1 10 (Some ''c2'') = Inr 8"
    by (simp_all add: deviation_def loc_def ex_ideal_def getitem_def upt4)
  have tol: "max_allowed_deviation ex_training ex_ideal 0 (Some ''c1'') = Inr (Fin (sqrt 2))"
    "max_allowed_deviation ex_training ex_ideal 1 (Some ''c2'') = Inr (Fin 0)"
    "max_allowed_deviation ex_training ex_ideal 2 (Some ''c1'') = Inr (Fin 0)"
    "max_allowed_deviation ex_training ex_ideal 3 (Some ''c2'') = Inr (Fin (sqrt 2))"
    by (simp_all add: max_allowed_deviation_def ex_training_def ex_ideal_def training_col_def
        getitem_def aligned_abs_diff_def upt4)
  have far: "\<not> py_le (Fin 9) (Fin (sqrt 2))" "\<not> py_le (Fin 8) (Fin (sqrt 2))"
    using sqrt2_less_2 by simp_all
  have len: "length ?fs = 4" by simp
  have hyp: "\<forall>i<length ?fs. deviation ex_ideal 1 10 (?fs ! i) = Inr (?D i) \<and>
               max_allowed_deviation ex_training ex_ideal i (?fs ! i) = Inr (?T i)"
    unfolding len using dev tol by (simp add: all_less_4)
  have none: "\<forall>i<length ?fs. \<not> py_le (Fin (?D i)) (?T i)"
    unfolding len using far by (simp add: all_less_4)
  note inst = unmatched_point_keeps_infinite_deviation[OF hyp none]
  from dev tol far inst show ?thesis by blast
qed

text \<open>
  The test point \<open>(1, 10)\<close> of the example is on the grid and outside every tolerance;
  its record carries the float infinity in \<open>delta_y\<close>, which is not the missing value
  (NaN) of a float column.
\<close>

theorem unmatched_point_deviation_counterexample:
  "fst (process_test_data [(1, 10)] ex_db) =
     Inr [\<lparr>res_x = 1, res_y = 10, delta_y = PosInf, ideal_func_no = None\<rparr>] \<and>
   PosInf \<noteq> NaN"
  by (simp add: process_test_data_def to_sql_replace_def ex_db_fields ex_selection ex_row_far)

section \<open>Test points off the grid\<close>

text \<open>
  C5, as the code has it. If the \<open>x\<close> of some test point is not a value of the grid,
  \<open>process_test_data\<close> raises: no result is returned for any test point and the database is
  left unchanged. When the selection has succeeded and the grid values are distinct, the
  exception is the \<open>KeyError\<close> of \<open>.loc\<close>. There is no per-point failure record.
\<close>

theorem off_grid_point_aborts_batch:
  assumes p: "p \<in> set tests" and off: "fst p \<notin> set (index (ideal_functions db))"
  shows "(\<exists>e. process_test_data tests db = (Inl e, db)) \<and>
         (\<forall>fs. best_ideal_funcs (training_data db) (ideal_functions db) = Inr fs \<and>
               distinct (index (ideal_functions db)) \<longrightarrow>
               process_test_data tests db = (Inl KeyError, db))"
proof -
  have fail: "\<exists>e. results_loop (training_data db) (ideal_functions db) fs tests = Inl e"
    if sel: "best_ideal_funcs (training_data db) (ideal_functions db) = Inr fs" for fs
  proof (cases "results_loop (training_data db) (ideal_functions db) fs tests")
    case (Inl e)
    then show ?thesis by simp
  next
    case (Inr rs)
    from best_ideal_funcs_char[OF sel, of 0] have "fs \<noteq> []" by auto
    from results_loop_on_grid[OF Inr this p] off show ?thesis by simp
  qed
  have 1: "\<exists>e. process_test_data tests db = (Inl e, db)"
  proof (cases "best_ideal_funcs (training_data db) (ideal_functions db)")
    case (Inl e)
    then show ?thesis by (simp add: process_test_data_def)
  next
    case (Inr fs)
    from fail[OF Inr] obtain e where
      "results_loop (training_data db) (ideal_functions db) fs tests = Inl e" by blast
    with Inr show ?thesis by (simp add: process_test_data_def)
  qed
  have 2: "process_test_data tests db = (Inl KeyError, db)"
    if sel: "best_ideal_funcs (training_data db) (ideal_functions db) = Inr fs"
      and dist: "distinct (index (ideal_functions db))" for fs
  proof -
    from fail[OF sel] obtain e where
      e: "results_loop (training_data db) (ideal_functions db) fs tests = Inl e" by blast
    from results_loop_error[OF dist e] have "e = KeyError" .
    with e sel show ?thesis by (simp add: process_test_data_def)
  qed
  from 1 2 show ?thesis by blast
qed

theorem off_grid_point_aborts_batch_witness:
  "(3 / 2 :: real, 1 :: real) \<in> set [(3 / 2, 1), (1, 1)] \<and>
   fst (3 / 2 :: real, 1 :: real) \<notin> set (index (ideal_functions ex_db)) \<and>
   distinct (index (ideal_functions ex_db)) \<and>
   process_test_data [(3 / 2, 1), (1, 1)] ex_db = (Inl KeyError, ex_db)"
proof -
  have p: "(3 / 2 :: real, 1 :: real) \<in> set [(3 / 2, 1), (1, 1)]" by simp
  have off: "fst (3 / 2 :: real, 1 :: real) \<notin> set (index (ideal_functions ex_db))"
    by (simp add: ex_db_fields ex_ideal_def)
  have dist: "distinct (index (ideal_functions ex_db))"
    by (simp add: ex_db_fields ex_ideal_def)
  have sel: "best_ideal_funcs (training_data ex_db) (ideal_functions ex_db)
               = Inr [Some ''c1'', Some ''c2'', Some ''c1'', Some ''c2'']"
    by (simp add: ex_db_fields ex_selection)
  from off_grid_point_aborts_batch[OF p off] sel dist p off show ?thesis by blast
qed

text \<open>
  A batch of two test points of which the first has \<open>x = 1.5\<close>, not on the grid
  \<open>0, 1, 2, 3\<close>: the run ends in \<open>KeyError\<close> and the second point, which is on the grid,
  gets no result.
\<close>

theorem off_grid_point_counterexample:
  "process_test_data [(3 / 2, 1), (1, 1)] ex_db = (Inl KeyError, ex_db)"
  by (simp add: process_test_data_def ex_db_fields ex_selection ex_row_off_grid)

section \<open>Tables on different grids\<close>

text \<open>
  C6, as the code has it. The selection compares lengths only. When the training table
  and the candidate table differ in length and there is a candidate column, the first
  call of \<open>mean_squared_error\<close> raises \<open>ValueError\<close>, before any error value is computed.
  The grid values are never read: replacing the \<open>x\<close> column of the training table and the
  index of the candidate table by anything does not change the outcome of the selection.
\<close>

theorem selection_checks_lengths_only:
  "(wf_training_df tr \<and> wf_ideal_df df \<and> columns df \<noteq> [] \<and>
      length (train_x tr) \<noteq> length (index df)
      \<longrightarrow> best_ideal_funcs tr df = Inl ValueError) \<and>
   best_ideal_funcs (tr\<lparr>train_x := xs\<rparr>) (df\<lparr>index := idx\<rparr>) = best_ideal_funcs tr df"
proof
  show "wf_training_df tr \<and> wf_ideal_df df \<and> columns df \<noteq> [] \<and>
      length (train_x tr) \<noteq> length (index df)
      \<longrightarrow> best_ideal_funcs tr df = Inl ValueError"
    using first_mse_fails by blast
  show "best_ideal_funcs (tr\<lparr>train_x := xs\<rparr>) (df\<lparr>index := idx\<rparr>) = best_ideal_funcs tr df"
    by (simp only: best_ideal_funcs_def best_ideal_funcs_loop_grid_free)
qed

theorem selection_checks_lengths_only_witness:
  "wf_training_df shifted_training \<and> wf_ideal_df ex_ideal \<and> columns ex_ideal \<noteq> [] \<and>
   length (train_x shifted_training) \<noteq> length (index ex_ideal) \<and>
   best_ideal_funcs shifted_training ex_ideal = Inl ValueError \<and>
   best_ideal_funcs (ex_training\<lparr>train_x := [0, 1, 2, 3]\<rparr>) (ex_ideal\<lparr>index := [10, 20, 30, 40]\<rparr>)
     = Inr [Some ''c1'', Some ''c2'', Some ''c1'', Some ''c2'']"
proof -
  have hyp: "wf_training_df shifted_training \<and> wf_ideal_df ex_ideal \<and> columns ex_ideal \<noteq> [] \<and>
   length (train_x shifted_training) \<noteq> length (index ex_ideal)"
    by (simp add: wf_training_df_def wf_ideal_df_def shifted_training_def ex_ideal_def)
  note inst = selection_checks_lengths_only[of shifted_training ex_ideal]
    selection_checks_lengths_only[of ex_training ex_ideal "[0, 1, 2, 3]" "[10, 20, 30, 40]"]
  from inst hyp show ?thesis by (simp add: ex_selection)
qed

text \<open>
  The example tables on two different grids of the same length: the selection returns
  its fits.
\<close>

theorem grid_values_counterexample:
  "train_x ex_training \<noteq> index ex_ideal_other_grid \<and>
   length (train_x ex_training) = length (index ex_ideal_other_grid) \<and>
   best_ideal_funcs ex_training ex_ideal_other_grid
     = Inr [Some ''c1'', Some ''c2'', Some ''c1'', Some ''c2'']"
  by (simp add: best_ideal_funcs_def ex_training_def ex_ideal_other_grid_def ex_ideal_def
      training_col_def getitem_def mean_squared_error_def)

section \<open>The result list\<close>

text \<open>
  C7, as the code has it. A run of \<open>process_test_data\<close> that returns yields exactly one
  record for each test point, in the order of the test points and with their \<open>x\<close> and
  \<open>y\<close>. And the run does return, whatever the number of unmatched points, when the
  selection has returned its fits from at least one candidate column, the grid values
  are distinct, there is at least one test point and the \<open>x\<close> of every test point is a
  value of the grid. A run that raises yields no record.
\<close>

theorem one_result_per_on_grid_test_point:
  "(fst (process_test_data tests db) = Inr rs
      \<longrightarrow> length rs = length tests \<and> map (\<lambda>r. (res_x r, res_y r)) rs = tests) \<and>
   (best_ideal_funcs (training_data db) (ideal_functions db) = Inr fs \<and>
    columns (ideal_functions db) \<noteq> [] \<and> distinct (index (ideal_functions db)) \<and>
    (\<forall>p\<in>set tests. fst p \<in> set (index (ideal_functions db))) \<and> tests \<noteq> []
      \<longrightarrow> (\<exists>rs'. process_test_data tests db = (Inr rs', db\<lparr>test_data := Some rs'\<rparr>) \<and>
                 length rs' = length tests \<and> map (\<lambda>r. (res_x r, res_y r)) rs' = tests))"
proof (rule conjI)
  show "fst (process_test_data tests db) = Inr rs
      \<longrightarrow> length rs = length tests \<and> map (\<lambda>r. (res_x r, res_y r)) rs = tests"
    using returned_run_records by blast
next
  show "best_ideal_funcs (training_data db) (ideal_functions db) = Inr fs \<and>
    columns (ideal_functions db) \<noteq> [] \<and> distinct (index (ideal_functions db)) \<and>
    (\<forall>p\<in>set tests. fst p \<in> set (index (ideal_functions db))) \<and> tests \<noteq> []
      \<longrightarrow> (\<exists>rs'. process_test_data tests db = (Inr rs', db\<lparr>test_data := Some rs'\<rparr>) \<and>
                 length rs' = length tests \<and> map (\<lambda>r. (res_x r, res_y r)) rs' = tests)"
  proof (rule impI)
    assume a: "best_ideal_funcs (training_data db) (ideal_functions db) = Inr fs \<and>
      columns (ideal_functions db) \<noteq> [] \<and> distinct (index (ideal_functions db)) \<and>
      (\<forall>p\<in>set tests. fst p \<in> set (index (ideal_functions db))) \<and> tests \<noteq> []"
    then have sel: "best_ideal_funcs (training_data db) (ideal_functions db) = Inr fs"
      and cols: "columns (ideal_functions db) \<noteq> []"
      and dist: "distinct (index (ideal_functions db))"
      and grid: "\<forall>p\<in>set tests. fst p \<in> set (index (ideal_functions db))"
      and ne: "tests \<noteq> []"
      by simp_all
    from run_returns_on_grid[OF sel cols dist grid ne] obtain rs' where
      run: "process_test_data tests db = (Inr rs', db\<lparr>test_data := Some rs'\<rparr>)" by blast
    then have "fst (process_test_data tests db) = Inr rs'" by simp
    from returned_run_records[OF this] run
    show "\<exists>rs'. process_test_data tests db = (Inr rs', db\<lparr>test_data := Some rs'\<rparr>) \<and>
                   length rs' = length tests \<and> map (\<lambda>r. (res_x r, res_y r)) rs' = tests"
      by blast
  qed
qed

theorem one_result_per_on_grid_test_point_witness:
  "best_ideal_funcs (training_data ex_db) (ideal_functions ex_db)
     = Inr [Some ''c1'', Some ''c2'', Some ''c1'', Some ''c2''] \<and>
   columns (ideal_functions ex_db) \<noteq> [] \<and> distinct (index (ideal_functions ex_db)) \<and>
   fst (1 :: real, 10 :: real) \<in> set (index (ideal_functions ex_db)) \<and>
   fst (1 :: real, 3 / 2 :: real) \<in> set (index (ideal_functions ex_db)) \<and>
   [(1 :: real, 10 :: real), (1, 3 / 2)] \<noteq> [] \<and>
   fst (process_test_data [(1, 10), (1, 3 / 2)] ex_db) =
     Inr [\<lparr>res_x = 1, res_y = 10, delta_y = PosInf, ideal_func_no = None\<rparr>,
          \<lparr>res_x = 1, res_y = 3 / 2, delta_y = Fin (1 / 2), ideal_func_no = Some 1\<rparr>] \<and>
   length [\<lparr>res_x = 1, res_y = 10, delta_y = PosInf, ideal_func_no = None\<rparr>,
          \<lparr>res_x = 1, res_y = 3 / 2, delta_y = Fin (1 / 2), ideal_func_no = Some 1\<rparr>]
     = length [(1 :: real, 10 :: real), (1, 3 / 2)]"
proof -
  let ?tests = "[(1 :: real, 10 :: real), (1, 3 / 2)]"
  let ?fs = "[Some ''c1'', Some ''c2'', Some ''c1'', Some ''c2'']"
  let ?rs = "[\<lparr>res_x = 1, res_y = 10, delta_y = PosInf, ideal_func_no = None\<rparr>,
          \<lparr>res_x = 1, res_y = 3 / 2, delta_y = Fin (1 / 2), ideal_func_no = Some 1\<rparr>]"
  have sel: "best_ideal_funcs (training_data ex_db) (ideal_functions ex_db) = Inr ?fs"
    by (simp add: ex_db_fields ex_selection)
  have cols: "columns (ideal_functions ex_db) \<noteq> []"
    and dist: "distinct (index (ideal_functions ex_db))"
    and g1: "fst (1 :: real, 10 :: real) \<in> set (index (ideal_functions ex_db))"
    and g2: "fst (1 :: real, 3 / 2 :: real) \<in> set (index (ideal_functions ex_db))"
    by (simp_all add: ex_db_fields ex_ideal_def)
  have grid: "\<forall>p\<in>set ?tests. fst p \<in> set (index (ideal_functions ex_db))"
    using g1 g2 by simp
  have ne: "?tests \<noteq> []" by simp
  have run: "fst (process_test_data ?tests ex_db) = Inr ?rs"
    by (simp add: ex_run)
  note inst = one_result_per_on_grid_test_point[of ?tests ex_db ?rs ?fs]
  from inst run have len: "length ?rs = length ?tests" by blast
  from inst sel cols dist grid ne have
    "\<exists>rs'. process_test_data ?tests ex_db = (Inr rs', ex_db\<lparr>test_data := Some rs'\<rparr>) \<and>
            length rs' = length ?tests \<and> map (\<lambda>r. (res_x r, res_y r)) rs' = ?tests"
    by blast
  with sel cols dist g1 g2 ne run len show ?thesis by blast
qed

text \<open>
  A batch of two test points on the example tables, the first on the grid and the second
  with \<open>x = 5\<close>, not on the grid \<open>0, 1, 2, 3\<close>: the run ends in \<open>KeyError\<close>, returns no
  record and leaves the table \<open>test_data\<close> empty.
\<close>

theorem off_grid_batch_has_no_records_counterexample:
  "process_test_data [(1, 3 / 2), (5, 0)] ex_db = (Inl KeyError, ex_db) \<and>
   test_data ex_db = Some [] \<and>
   length [(1 :: real, 3 / 2 :: real), (5, 0)] = 2"
  by (simp add: process_test_data_def ex_db_fields ex_selection ex_row_tie ex_row_off_grid_late)
    (simp add: ex_db_def)

section \<open>A raised bound and the assignments\<close>

text \<open>
  C8, evaluated on the grid \<open>-1, 0, 1\<close> with the candidate column \<open>[0, 10, 0]\<close>. Replacing
  the training column \<open>y1 = [6, 4, 0]\<close> by \<open>[8, 2, 0]\<close> and holding all else fixed raises the
  largest deviation of fit 1 over the grid positions from \<open>6\<close> to \<open>8\<close>, and the selected
  candidates stay the same. Line 181 pairs row number \<open>0\<close> with \<open>x = 0\<close> and row number \<open>1\<close>
  with \<open>x = 1\<close>, so the tolerance it computes falls from \<open>sqrt 2 * 4\<close> to \<open>sqrt 2 * 2\<close>. The
  test point \<open>(0, 7)\<close>, of deviation \<open>3\<close>, is assigned to fit 1 before the change and to no
  fit after it: the number of test points assigned to fit 1 decreases from \<open>1\<close> to \<open>0\<close>.
\<close>

theorem raised_bound_loses_assignment:
  "best_ideal_funcs dip_training dip_ideal
     = Inr [Some ''c1'', Some ''c1'', Some ''c1'', Some ''c1''] \<and>
   best_ideal_funcs dip_training_raised dip_ideal
     = Inr [Some ''c1'', Some ''c1'', Some ''c1'', Some ''c1''] \<and>
   spec_max_abs_deviation (train_y1 dip_training) [0, 10, 0] = Fin 6 \<and>
   spec_max_abs_deviation (train_y1 dip_training_raised) [0, 10, 0] = Fin 8 \<and>
   max_allowed_deviation dip_training dip_ideal 0 (Some ''c1'') = Inr (Fin (sqrt 2 * 4)) \<and>
   max_allowed_deviation dip_training_raised dip_ideal 0 (Some ''c1'') = Inr (Fin (sqrt 2 * 2)) \<and>
   fst (process_test_data [(0, 7)] dip_db)
     = Inr [\<lparr>res_x = 0, res_y = 7, delta_y = Fin 3, ideal_func_no = Some 1\<rparr>] \<and>
   fst (process_test_data [(0, 7)] (dip_db\<lparr>training_data := dip_training_raised\<rparr>))
     = Inr [\<lparr>res_x = 0, res_y = 7, delta_y = PosInf, ideal_func_no = None\<rparr>]"
proof -
  have spec: "spec_max_abs_deviation (train_y1 dip_training) [0, 10, 0] = Fin 6"
    "spec_max_abs_deviation (train_y1 dip_training_raised) [0, 10, 0] = Fin 8"
    by (simp_all add: spec_max_abs_deviation_def dip_training_raised_def dip_training_def)
  have tol: "max_allowed_deviation dip_training dip_ideal 0 (Some ''c1'') = Inr (Fin (sqrt 2 * 4))"
    "max_allowed_deviation dip_training_raised dip_ideal 0 (Some ''c1'') = Inr (Fin (sqrt 2 * 2))"
    by (simp_all add: max_allowed_deviation_def dip_training_raised_def dip_training_def
        dip_ideal_def training_col_def getitem_def aligned_abs_diff_def upt3)
  have run: "fst (process_test_data [(0, 7)] dip_db)
     = Inr [\<lparr>res_x = 0, res_y = 7, delta_y = Fin 3, ideal_func_no = Some 1\<rparr>]"
    by (simp add: process_test_data_def to_sql_replace_def dip_db_def dip_selection dip_row)
  have run': "fst (process_test_data [(0, 7)] (dip_db\<lparr>training_data := dip_training_raised\<rparr>))
     = Inr [\<lparr>res_x = 0, res_y = 7, delta_y = PosInf, ideal_func_no = None\<rparr>]"
    by (simp add: process_test_data_def to_sql_replace_def dip_db_def dip_selection
        dip_row_raised)
  from dip_selection spec tol run run' show ?thesis by blast
qed

section \<open>Repeated runs\<close>

text \<open>
  C9. \<open>process_test_data\<close> reads the tables \<open>training_data\<close> and \<open>ideal_functions\<close>
  and writes only \<open>test_data\<close>, which it does not read. So a second run on the database
  that the first run left behind returns the same result and leaves the same database,
  and the result does not depend on what \<open>test_data\<close> held before.
\<close>

theorem process_test_data_repeatable:
  "process_test_data tests (snd (process_test_data tests db)) = process_test_data tests db \<and>
   fst (process_test_data tests (db\<lparr>test_data := old\<rparr>)) = fst (process_test_data tests db)"
proof (cases "best_ideal_funcs (training_data db) (ideal_functions db)")
  case (Inl e)
  then show ?thesis by (simp add: process_test_data_def)
next
  case (Inr fs)
  show ?thesis
  proof (cases "results_loop (training_data db) (ideal_functions db) fs tests")
    case (Inl e)
    with Inr show ?thesis by (simp add: process_test_data_def)
  next
    case rs: (Inr rs)
    with Inr show ?thesis by (simp add: process_test_data_def to_sql_replace_def)
  qed
qed

theorem process_test_data_repeatable_witness:
  "process_test_data [(1, 10), (1, 3 / 2)] (snd (process_test_data [(1, 10), (1, 3 / 2)] ex_db))
     = process_test_data [(1, 10), (1, 3 / 2)] ex_db \<and>
   fst (process_test_data [(1, 10), (1, 3 / 2)] ex_db) =
     Inr [\<lparr>res_x = 1, res_y = 10, delta_y = PosInf, ideal_func_no = None\<rparr>,
          \<lparr>res_x = 1, res_y = 3 / 2, delta_y = Fin (1 / 2), ideal_func_no = Some 1\<rparr>]"
  using process_test_data_repeatable[of "[(1, 10), (1, 3 / 2)]" ex_db] by (simp add: ex_run)

section \<open>The meaning of \<open>ideal_func_no\<close>\<close>

text \<open>
  C10. In every record of a run that returns, \<open>ideal_func_no\<close> is either \<open>None\<close>, and then
  no fit is eligible for the point, or a number \<open>n\<close> with \<open>1 \<le> n \<le> 4\<close>: the number of the
  training column \<open>y n\<close>, whose fit (the entry \<open>n - 1\<close> of \<open>best_ideal_funcs\<close>) is eligible
  for the point and has the recorded deviation. It is not the name of the candidate
  column.
\<close>

theorem ideal_func_no_is_training_index:
  assumes run: "fst (process_test_data tests db) = Inr rs" and r: "r \<in> set rs"
  shows "\<exists>fs. best_ideal_funcs (training_data db) (ideal_functions db) = Inr fs \<and>
           (case ideal_func_no r of
              None \<Rightarrow>
                delta_y r = PosInf \<and>
                (\<forall>i<4. \<forall>d t.
                    deviation (ideal_functions db) (res_x r) (res_y r) (fs ! i) = Inr d \<and>
                    max_allowed_deviation (training_data db) (ideal_functions db) i (fs ! i) = Inr t
                    \<longrightarrow> \<not> py_le (Fin d) t)
            | Some n \<Rightarrow>
                1 \<le> n \<and> n \<le> 4 \<and>
                (\<exists>signal d t.
                    training_col (training_data db) n = Inr signal \<and>
                    deviation (ideal_functions db) (res_x r) (res_y r) (fs ! (n - 1)) = Inr d \<and>
                    max_allowed_deviation (training_data db) (ideal_functions db) (n - 1)
                        (fs ! (n - 1)) = Inr t \<and>
                    py_le (Fin d) t \<and> delta_y r = Fin d))"
proof -
  let ?tr = "training_data db" and ?df = "ideal_functions db"
  from process_test_data_Inr[OF run] obtain fs where
    sel: "best_ideal_funcs ?tr ?df = Inr fs" and loop: "results_loop ?tr ?df fs tests = Inr rs"
    by blast
  from best_ideal_funcs_char[OF sel, of 0] have len: "length fs = 4" by simp
  from r obtain k where k: "k < length rs" "rs ! k = r" by (auto simp: in_set_conv_nth)
  with results_loop_nth[OF loop] have row: "process_row ?tr ?df fs (tests ! k) = Inr r"
    by auto
  from process_row_fields[OF row] have xy: "tests ! k = (res_x r, res_y r)"
    by (cases "tests ! k") simp
  from process_row_defined[OF row] obtain D T where
    DT: "\<forall>i<length fs. deviation ?df (res_x r) (res_y r) (fs ! i) = Inr (D i) \<and>
                        max_allowed_deviation ?tr ?df i (fs ! i) = Inr (T i)"
    using xy by auto
  from process_row_char[OF DT] row xy have
    ch: "(ideal_func_no r = None \<and> delta_y r = PosInf \<and>
               (\<forall>i<length fs. \<not> py_le (Fin (D i)) (T i))) \<or>
            (\<exists>j<length fs. ideal_func_no r = Some (j + 1) \<and> delta_y r = Fin (D j) \<and>
                py_le (Fin (D j)) (T j) \<and>
                (\<forall>i<length fs. py_le (Fin (D i)) (T i) \<longrightarrow> D j \<le> D i) \<and>
                (\<forall>i<j. py_le (Fin (D i)) (T i) \<longrightarrow> D j < D i))"
    by auto
  have "case ideal_func_no r of
              None \<Rightarrow>
                delta_y r = PosInf \<and>
                (\<forall>i<4. \<forall>d t.
                    deviation ?df (res_x r) (res_y r) (fs ! i) = Inr d \<and>
                    max_allowed_deviation ?tr ?df i (fs ! i) = Inr t
                    \<longrightarrow> \<not> py_le (Fin d) t)
            | Some n \<Rightarrow>
                1 \<le> n \<and> n \<le> 4 \<and>
                (\<exists>signal d t.
                    training_col ?tr n = Inr signal \<and>
                    deviation ?df (res_x r) (res_y r) (fs ! (n - 1)) = Inr d \<and>
                    max_allowed_deviation ?tr ?df (n - 1) (fs ! (n - 1)) = Inr t \<and>
                    py_le (Fin d) t \<and> delta_y r = Fin d)"
    using ch
  proof
    assume a: "ideal_func_no r = None \<and> delta_y r = PosInf \<and>
               (\<forall>i<length fs. \<not> py_le (Fin (D i)) (T i))"
    have "\<not> py_le (Fin d) t"
      if "i < 4" "deviation ?df (res_x r) (res_y r) (fs ! i) = Inr d"
         "max_allowed_deviation ?tr ?df i (fs ! i) = Inr t" for i d t
    proof -
      from that DT len have "d = D i" "t = T i" by auto
      with a that(1) len show ?thesis by simp
    qed
    with a show ?thesis by auto
  next
    assume "\<exists>j<length fs. ideal_func_no r = Some (j + 1) \<and> delta_y r = Fin (D j) \<and>
                py_le (Fin (D j)) (T j) \<and>
                (\<forall>i<length fs. py_le (Fin (D i)) (T i) \<longrightarrow> D j \<le> D i) \<and>
                (\<forall>i<j. py_le (Fin (D i)) (T i) \<longrightarrow> D j < D i)"
    then obtain j where j: "j < 4" "ideal_func_no r = Some (j + 1)" "delta_y r = Fin (D j)"
      "py_le (Fin (D j)) (T j)" using len by auto
    from training_col_defined[OF j(1)] obtain signal where
      "training_col ?tr (j + 1) = Inr signal" by blast
    moreover from DT j(1) len have "deviation ?df (res_x r) (res_y r) (fs ! j) = Inr (D j)"
      "max_allowed_deviation ?tr ?df j (fs ! j) = Inr (T j)" by auto
    ultimately have "\<exists>signal d t.
                    training_col ?tr (j + 1) = Inr signal \<and>
                    deviation ?df (res_x r) (res_y r) (fs ! j) = Inr d \<and>
                    max_allowed_deviation ?tr ?df j (fs ! j) = Inr t \<and>
                    py_le (Fin d) t \<and> delta_y r = Fin d"
      using j(3,4) by blast
    with j(1,2) show ?thesis by simp
  qed
  with sel show ?thesis by blast
qed

theorem ideal_func_no_is_training_index_witness:
  "fst (process_test_data [(1, 3)] ex_db) =
     Inr [\<lparr>res_x = 1, res_y = 3, delta_y = Fin 1, ideal_func_no = Some 4\<rparr>] \<and>
   best_ideal_funcs (training_data ex_db) (ideal_functions ex_db)
     = Inr [Some ''c1'', Some ''c2'', Some ''c1'', Some ''c2''] \<and>
   training_col (training_data ex_db) 4 = Inr [0, 2, 4, 7]"
proof -
  have run: "fst (process_test_data [(1, 3)] ex_db) =
     Inr [\<lparr>res_x = 1, res_y = 3, delta_y = Fin 1, ideal_func_no = Some 4\<rparr>]"
    by (simp add: process_test_data_def to_sql_replace_def ex_db_fields ex_selection ex_row_high)
  have r: "\<lparr>res_x = 1, res_y = 3, delta_y = Fin 1, ideal_func_no = Some 4\<rparr>
             \<in> set [\<lparr>res_x = 1, res_y = 3, delta_y = Fin 1, ideal_func_no = Some 4\<rparr>]"
    by simp
  have sel: "best_ideal_funcs (training_data ex_db) (ideal_functions ex_db)
     = Inr [Some ''c1'', Some ''c2'', Some ''c1'', Some ''c2'']"
    by (simp add: ex_db_fields ex_selection)
  have col: "training_col (training_data ex_db) 4 = Inr [0, 2, 4, 7]"
    by (simp add: ex_db_fields training_col_def ex_training_def)
  note inst = ideal_func_no_is_training_index[OF run r]
  from inst run sel col show ?thesis by blast
qed

end
